theory Spec2Isabelle
  imports
    Main
    "HOL-Library.Word"
    "HOL-Library.AList"
    "HOL-Library.Char_ord"
    "HOL-Library.List_Lexorder"
begin

section \<open>Go values shared by the packages\<close>

text \<open>
  A Go \<open>error\<close> is modelled by how it was built. \<open>ErrorString\<close> is an error made
  from a message alone (\<open>fmt.Errorf\<close> without \<open>%w\<close>, or an error of a library);
  \<open>WrapError msg e\<close> is \<open>fmt.Errorf\<close> with one \<open>%w\<close> verb: \<open>msg\<close> is the
  complete formatted text and \<open>e\<close> the wrapped error. \<open>RedisNil\<close> and
  \<open>ContextCanceled\<close> are the sentinel values \<open>redis.Nil\<close> and
  \<open>context.Canceled\<close>, which the worker compares with \<open>==\<close>.
\<close>

datatype error =
    ErrorString string
  | WrapError string error
  | RedisNil
  | ContextCanceled

fun err_Error :: "error \<Rightarrow> string" where
  "err_Error (ErrorString s) = s"
| "err_Error (WrapError s e) = s"
| "err_Error RedisNil = ''redis: nil''"
| "err_Error ContextCanceled = ''context canceled''"

text \<open>\<open>fmt.Errorf(prefix + "%w", err)\<close>: the text of \<open>err\<close> follows the prefix.\<close>

definition Errorf_w :: "string \<Rightarrow> error \<Rightarrow> error" where
  "Errorf_w prefix err = WrapError (prefix @ err_Error err) err"

text \<open>
  The dynamic values an \<open>interface{}\<close> holds in this program: what the intake layer
  stores in a task's data, what \<open>json.Unmarshal\<close> builds, and the \<open>template.URL\<close>
  strings of the renderer. A Go \<open>int\<close> is a 64-bit two's complement word, a
  \<open>float64\<close> its IEEE-754 bit pattern. A map is an association list read with
  \<open>map_of\<close> and written with \<open>AList.update\<close>; \<open>go_range\<close> lists its entries, one
  per key.
\<close>

type_synonym float64 = "64 word"

datatype go_value =
    VNil
  | VBool bool
  | VInt "64 word"
  | VFloat64 float64
  | VString string
  | VURL string
  | VSlice "go_value list"
  | VMap "(string \<times> go_value) list"

type_synonym go_map = "(string \<times> go_value) list"

definition go_range :: "go_map \<Rightarrow> (string \<times> go_value) list" where
  "go_range m = AList.clearjunk m"

text \<open>\<open>%d\<close> of \<open>fmt\<close>: a signed integer in decimal.\<close>

fun digits :: "nat \<Rightarrow> string" where
  "digits n = (if n < 10 then [char_of (48 + n)] else digits (n div 10) @ [char_of (48 + n mod 10)])"

definition itoa :: "int \<Rightarrow> string" where
  "itoa i = (if i < 0 then CHR ''-'' # digits (nat (- i)) else digits (nat i))"

section \<open>internal/config\<close>

record ApplicationConfig =
  ServerPort :: string
  CacheHost :: string
  CachePort :: string
  CachePassword :: string
  CacheDatabaseIndex :: "64 word"
  EmailSMTPServer :: string
  EmailSMTPServerPort :: "64 word"
  EmailSMTPUsername :: string
  EmailSMTPPassword :: string
  EmailSenderAddress :: string
  EmailSenderDisplayName :: string

section \<open>internal/emailTemplate\<close>

text \<open>
  A parsed \<open>html/template\<close> is the function \<open>Execute\<close> computes from the data it
  is given: the rendered text or an error. \<open>Manager.templates\<close> maps names to them.
  The package \<open>net/url\<close> is a parameter: \<open>url_Parse\<close> and the \<open>String\<close> method of
  the parsed URL.
\<close>

type_synonym template = "(string \<Rightarrow> go_value option) \<Rightarrow> error + string"

record Manager =
  templates :: "(string \<times> template) list"

record 'u net_url =
  url_Parse :: "string \<Rightarrow> error + 'u"
  url_String :: "'u \<Rightarrow> string"

text \<open>
  Go maps are references. The renderer is modelled over a store of maps so that a write
  to the caller's map would be visible: a map value is \<open>NilMap\<close> or the address of a
  cell, \<open>make\<close> allocates a fresh cell, and an assignment \<open>m[k] = v\<close> updates the
  cell of \<open>m\<close>.
\<close>

type_synonym heap = "go_map list"

datatype map_ref = NilMap | MapAt nat

definition deref :: "heap \<Rightarrow> map_ref \<Rightarrow> go_map" where
  "deref h r = (case r of NilMap \<Rightarrow> [] | MapAt a \<Rightarrow> if a < length h then h ! a else [])"

definition make_map :: "heap \<Rightarrow> nat \<times> heap" where
  "make_map h = (length h, h @ [[]])"

definition map_assign :: "nat \<Rightarrow> string \<Rightarrow> go_value \<Rightarrow> heap \<Rightarrow> heap" where
  "map_assign a k v h = h[a := AList.update k v (h ! a)]"

definition join_space :: "string list \<Rightarrow> string" where
  "join_space xs = concat (case xs of [] \<Rightarrow> [] | y # ys \<Rightarrow> y # map (\<lambda>s. CHR '' '' # s) ys)"

text \<open>
  \<open>Render\<close>: the pair \<open>(string, error)\<close> of the source. The list of available
  templates in the message is in the order of the association list (Go's map order is
  unspecified).
\<close>

definition Render :: "Manager \<Rightarrow> string \<Rightarrow> map_ref \<Rightarrow> heap \<Rightarrow> string \<times> error option" where
  "Render m name data h =
     (case map_of (templates m) name of
        None \<Rightarrow>
          ([], Some (ErrorString (''template '' @ [CHR 0x27] @ name @ [CHR 0x27]
                 @ '' not found. Available templates: ['' @ join_space (map fst (AList.clearjunk (templates m))) @ '']'')))
      | Some tmpl \<Rightarrow>
          (case tmpl (map_of (deref h data)) of
             Inl err \<Rightarrow>
               ([], Some (Errorf_w (''failed to render template '' @ [CHR 0x27] @ name @ [CHR 0x27] @ '': '') err))
           | Inr out \<Rightarrow> (out, None)))"

definition urlFields :: "string list" where
  "urlFields = [''resetUrl'', ''verifyUrl'', ''loginUrl'', ''signupUrl'']"

text \<open>The first loop of \<open>RenderWithSafeURLs\<close>: every entry of \<open>data\<close> is stored in \<open>safeData\<close>.\<close>

fun copy_entries :: "(string \<times> go_value) list \<Rightarrow> nat \<Rightarrow> heap \<Rightarrow> heap" where
  "copy_entries [] safeData h = h"
| "copy_entries ((key, val) # rest) safeData h = copy_entries rest safeData (map_assign safeData key val h)"

text \<open>
  The second loop, over \<open>urlFields\<close>: \<open>data[field].(string)\<close> succeeds on a string
  value only; a non-empty one is parsed, and an error of the parser ends the call.
\<close>

fun safe_urls :: "'u net_url \<Rightarrow> string list \<Rightarrow> map_ref \<Rightarrow> nat \<Rightarrow> heap \<Rightarrow> error + heap" where
  "safe_urls u [] data safeData h = Inr h"
| "safe_urls u (field # others) data safeData h =
     (case map_of (deref h data) field of
        Some (VString rawURL) \<Rightarrow>
          if rawURL \<noteq> [] then
            (case url_Parse u rawURL of
               Inl err \<Rightarrow> Inl (Errorf_w (''invalid '' @ field @ '': '') err)
             | Inr parsedURL \<Rightarrow>
                 safe_urls u others data safeData
                   (map_assign safeData field (VURL (url_String u parsedURL)) h))
          else safe_urls u others data safeData h
      | _ \<Rightarrow> safe_urls u others data safeData h)"

definition RenderWithSafeURLs ::
  "Manager \<Rightarrow> 'u net_url \<Rightarrow> string \<Rightarrow> map_ref \<Rightarrow> heap \<Rightarrow> (string \<times> error option) \<times> heap" where
  "RenderWithSafeURLs m u name data h =
     (let (safeData, h1) = make_map h;
          h2 = copy_entries (go_range (deref h1 data)) safeData h1
      in case safe_urls u urlFields data safeData h2 of
           Inl err \<Rightarrow> (([], Some err), h2)
         | Inr h3 \<Rightarrow> (Render m name (MapAt safeData) h3, h3))"

section \<open>internal/senderSide\<close>

record Sender =
  sender_config :: ApplicationConfig
  sender_templates :: Manager

definition NewSender :: "ApplicationConfig \<Rightarrow> Manager \<Rightarrow> Sender" where
  "NewSender cfg tmpl = \<lparr>sender_config = cfg, sender_templates = tmpl\<rparr>"

text \<open>
  \<open>strings.TrimSpace\<close> removes the leading and trailing white space runes of Unicode:
  the six ASCII ones, U+0085 and U+00A0 (two bytes in UTF-8), and U+1680,
  U+2000..U+200A, U+2028, U+2029, U+202F, U+205F and U+3000 (three bytes).
  \<open>trim_runes\<close> removes them from the head of a byte list; the flag tells that the list
  is a reversed string, whose runes are read from their last byte.
\<close>

definition ascii_space :: "char \<Rightarrow> bool" where
  "ascii_space c = (c \<in> set [CHR 0x09, CHR 0x0A, CHR 0x0B, CHR 0x0C, CHR 0x0D, CHR 0x20])"

definition space2 :: "char \<Rightarrow> char \<Rightarrow> bool" where
  "space2 a b = (a = CHR 0xC2 \<and> (b = CHR 0x85 \<or> b = CHR 0xA0))"

definition space3 :: "char \<Rightarrow> char \<Rightarrow> char \<Rightarrow> bool" where
  "space3 a b c =
     ((a = CHR 0xE1 \<and> b = CHR 0x9A \<and> c = CHR 0x80)
      \<or> (a = CHR 0xE2 \<and> b = CHR 0x80
          \<and> ((CHR 0x80 \<le> c \<and> c \<le> CHR 0x8A) \<or> c = CHR 0xA8 \<or> c = CHR 0xA9 \<or> c = CHR 0xAF))
      \<or> (a = CHR 0xE2 \<and> b = CHR 0x81 \<and> c = CHR 0x9F)
      \<or> (a = CHR 0xE3 \<and> b = CHR 0x80 \<and> c = CHR 0x80))"

fun trim_runes :: "bool \<Rightarrow> string \<Rightarrow> string" where
  "trim_runes rv (a # b # c # s) =
     (if ascii_space a then trim_runes rv (b # c # s)
      else if (if rv then space2 b a else space2 a b) then trim_runes rv (c # s)
      else if (if rv then space3 c b a else space3 a b c) then trim_runes rv s
      else a # b # c # s)"
| "trim_runes rv [a, b] =
     (if ascii_space a then trim_runes rv [b]
      else if (if rv then space2 b a else space2 a b) then []
      else [a, b])"
| "trim_runes rv [a] = (if ascii_space a then [] else [a])"
| "trim_runes rv [] = []"

definition TrimSpace :: "string \<Rightarrow> string" where
  "TrimSpace s = rev (trim_runes True (rev (trim_runes False s)))"

definition validateSMTPConfig :: "Sender \<Rightarrow> error option" where
  "validateSMTPConfig s =
     (if TrimSpace (EmailSMTPServer (sender_config s)) = [] then
        Some (ErrorString ''SMTP server is not configured'')
      else if EmailSMTPServerPort (sender_config s) \<le>s 0 then
        Some (ErrorString ''invalid SMTP server port'')
      else if TrimSpace (EmailSenderAddress (sender_config s)) = [] then
        Some (ErrorString ''sender email address is not configured'')
      else if TrimSpace (EmailSMTPUsername (sender_config s)) = [] then
        Some (ErrorString ''SMTP username is not configured'')
      else if TrimSpace (EmailSMTPPassword (sender_config s)) = [] then
        Some (ErrorString ''SMTP password is not configured'')
      else None)"

text \<open>
  \<open>smtp.PlainAuth\<close> builds a value from its four arguments; \<open>smtp.SendMail\<close> is the
  network, a parameter: a function of the address, the authentication, the sender, the
  recipients and the message.
\<close>

record PlainAuth =
  auth_identity :: string
  auth_username :: string
  auth_password :: string
  auth_host :: string

type_synonym smtp_send = "string \<Rightarrow> PlainAuth \<Rightarrow> string \<Rightarrow> string list \<Rightarrow> string \<Rightarrow> error option"

definition CRLF :: string where
  "CRLF = [CHR 0x0D, CHR 0x0A]"

definition email_message :: "ApplicationConfig \<Rightarrow> string \<Rightarrow> string \<Rightarrow> string \<Rightarrow> string" where
  "email_message cfg to subject body =
     ''From: '' @ EmailSenderDisplayName cfg @ '' <'' @ EmailSenderAddress cfg @ ''>'' @ CRLF
     @ ''To: '' @ to @ CRLF
     @ ''Subject: '' @ subject @ CRLF
     @ ''MIME-Version: 1.0'' @ CRLF
     @ ''Content-Type: text/html; charset=UTF-8'' @ CRLF @ CRLF
     @ body"

text \<open>
  \<open>SendEmail\<close>. The data map of the call is the one cell of the store the renderer
  runs in (none for a nil map); the renderer leaves it as it was, so the layers above
  pass maps by value.
\<close>

definition SendEmail ::
  "'u net_url \<Rightarrow> smtp_send \<Rightarrow> Sender \<Rightarrow> string \<Rightarrow> string \<Rightarrow> string \<Rightarrow> go_map option \<Rightarrow> error option" where
  "SendEmail u smtp_SendMail s to subject templateName data =
     (if to = [] then Some (ErrorString ''recipient email address cannot be empty'')
      else if subject = [] then Some (ErrorString ''email subject cannot be empty'')
      else if templateName = [] then Some (ErrorString ''email template name cannot be empty'')
      else
        (case validateSMTPConfig s of
           Some err \<Rightarrow> Some (Errorf_w ''invalid SMTP configuration: '' err)
         | None \<Rightarrow>
             (case fst (case data of
                          None \<Rightarrow> RenderWithSafeURLs (sender_templates s) u templateName NilMap []
                        | Some m \<Rightarrow> RenderWithSafeURLs (sender_templates s) u templateName (MapAt 0) [m]) of
                (body, Some err) \<Rightarrow> Some (Errorf_w ''failed to render email template: '' err)
              | (body, None) \<Rightarrow>
                  smtp_SendMail
                    (EmailSMTPServer (sender_config s) @ '':'' @ itoa (sint (EmailSMTPServerPort (sender_config s))))
                    \<lparr>auth_identity = [],
                     auth_username = EmailSMTPUsername (sender_config s),
                     auth_password = EmailSMTPPassword (sender_config s),
                     auth_host = EmailSMTPServer (sender_config s)\<rparr>
                    (EmailSenderAddress (sender_config s))
                    [to]
                    (email_message (sender_config s) to subject body))))"

definition SendTemplatedEmail ::
  "'u net_url \<Rightarrow> smtp_send \<Rightarrow> Sender \<Rightarrow> string \<Rightarrow> string \<Rightarrow> string \<Rightarrow> go_map option \<Rightarrow> error option" where
  "SendTemplatedEmail u smtp_SendMail s to subject templateName data =
     SendEmail u smtp_SendMail s to subject templateName data"

section \<open>internal/redisQueue\<close>

subsection \<open>What is outside the repository\<close>

text \<open>
  A JSON document is its syntax tree. A number is the literal the encoder writes: the
  decimal digits of an integer, or the shortest decimal text \<open>strconv\<close> gives a
  finite \<open>float64\<close> (the text that \<open>strconv.ParseFloat\<close> reads back as that value).
  A Redis string is either the text of a JSON document or bytes that are no JSON text.
\<close>

datatype jnumber = IntLit int | FloatLit float64

datatype json =
    JNull
  | JBool bool
  | JNumber jnumber
  | JString string
  | JArray "json list"
  | JObject "(string \<times> json) list"

datatype wire = Bytes string | Doc json

record EmailTask =
  To :: string
  Subject :: string
  TemplateName :: string
  Data :: "go_map option"
  Retries :: "64 word"

text \<open>\<open>encoding/json\<close> at the type \<open>EmailTask\<close>: the two calls the queue makes.\<close>

record json_pkg =
  Marshal :: "EmailTask \<Rightarrow> error + wire"
  Unmarshal :: "wire \<Rightarrow> error + EmailTask"

text \<open>
  What the world outside does during one call, or one iteration of the worker: the
  libraries, the SMTP server, whether \<open>RPush\<close> and \<open>BLPop\<close> fail (and with which
  error), and whether the context is done when the worker looks at it.
\<close>

record 'u env =
  url :: "'u net_url"
  json :: json_pkg
  smtp_SendMail :: smtp_send
  RPush_err :: "error option"
  BLPop_err :: "error option"
  ctx_Done :: bool

text \<open>
  The state the queue works on: the Redis list \<open>email_queue\<close>, head first, and what
  the worker did that an observer sees, in order: the records it logged and the pauses
  it made (\<open>time.Sleep\<close>, in nanoseconds).
\<close>

datatype Level = LevelInfo | LevelWarn | LevelError

datatype attr = AString string | AInt "64 word" | AError error

datatype event =
    Logged Level string "(string \<times> attr) list"
  | Slept nat

record world =
  store :: "wire list"
  trace :: "event list"

definition logger_log :: "Level \<Rightarrow> string \<Rightarrow> (string \<times> attr) list \<Rightarrow> world \<Rightarrow> world" where
  "logger_log lvl msg attrs w = w\<lparr>trace := trace w @ [Logged lvl msg attrs]\<rparr>"

definition time_Sleep :: "nat \<Rightarrow> world \<Rightarrow> world" where
  "time_Sleep d w = w\<lparr>trace := trace w @ [Slept d]\<rparr>"

definition emailQueue :: string where
  "emailQueue = ''email_queue''"

definition maxRetries :: "64 word" where
  "maxRetries = 3"

definition time_Second :: nat where
  "time_Second = 1000000000"

definition retryDelay :: nat where
  "retryDelay = 5 * time_Second"

definition queueCheckInterval :: nat where
  "queueCheckInterval = 1 * time_Second"

text \<open>
  \<open>RPush\<close> appends at the tail unless the call fails. \<open>BLPop\<close> with timeout 0
  removes the head and answers with the key and the element; on an empty list it
  waits, and as nothing else runs in this model the wait ends when the context is
  cancelled.
\<close>

definition RPush :: "'u env \<Rightarrow> wire \<Rightarrow> world \<Rightarrow> error option \<times> world" where
  "RPush e payload w =
     (case RPush_err e of
        Some err \<Rightarrow> (Some err, w)
      | None \<Rightarrow> (None, w\<lparr>store := store w @ [payload]\<rparr>))"

definition BLPop :: "'u env \<Rightarrow> world \<Rightarrow> (error + wire list) \<times> world" where
  "BLPop e w =
     (case BLPop_err e of
        Some err \<Rightarrow> (Inl err, w)
      | None \<Rightarrow>
          (case store w of
             [] \<Rightarrow> (Inl ContextCanceled, w)
           | payload # rest \<Rightarrow> (Inr [Bytes emailQueue, payload], w\<lparr>store := rest\<rparr>)))"

subsection \<open>The queue\<close>

text \<open>
  Of the fields of \<open>RedisQueue\<close>, the client is the \<open>store\<close> of the world and the
  logger its \<open>trace\<close>.
\<close>

record RedisQueue =
  sender :: Sender

definition validateEmailTask :: "EmailTask \<Rightarrow> error option" where
  "validateEmailTask task =
     (if To task = [] then Some (ErrorString ''recipient email is required'')
      else if Subject task = [] then Some (ErrorString ''email subject is required'')
      else if TemplateName task = [] then Some (ErrorString ''email template name is required'')
      else None)"

definition EnqueueEmail :: "'u env \<Rightarrow> EmailTask \<Rightarrow> world \<Rightarrow> error option \<times> world" where
  "EnqueueEmail e task w =
     (case validateEmailTask task of
        Some err \<Rightarrow> (Some (Errorf_w ''invalid email task: '' err), w)
      | None \<Rightarrow>
          (case Marshal (json e) task of
             Inl err \<Rightarrow> (Some (Errorf_w ''failed to serialize email task: '' err), w)
           | Inr taskJSON \<Rightarrow>
               (case RPush e taskJSON w of
                  (Some err, w1) \<Rightarrow> (Some (Errorf_w ''failed to enqueue email task: '' err), w1)
                | (None, w1) \<Rightarrow>
                    (None, logger_log LevelInfo ''Email task enqueued''
                             [(''to'', AString (To task)), (''subject'', AString (Subject task))] w1))))"

definition sendEmailWithRetry :: "'u env \<Rightarrow> RedisQueue \<Rightarrow> EmailTask \<Rightarrow> world \<Rightarrow> error option \<times> world" where
  "sendEmailWithRetry e q task w =
     (case SendEmail (url e) (smtp_SendMail e) (sender q)
             (To task) (Subject task) (TemplateName task) (Data task) of
        None \<Rightarrow>
          (None, logger_log LevelInfo ''Email sent successfully''
                   [(''to'', AString (To task)), (''subject'', AString (Subject task))] w)
      | Some err \<Rightarrow>
          if Retries task <s maxRetries then
            (let task1 = task\<lparr>Retries := Retries task + 1\<rparr>;
                 w1 = logger_log LevelWarn ''Email send failed, requeueing''
                        [(''to'', AString (To task1)), (''subject'', AString (Subject task1)),
                         (''retries'', AInt (Retries task1)), (''error'', AError err)] w;
                 w2 = time_Sleep retryDelay w1
             in case EnqueueEmail e task1 w2 of
                  (Some requeueErr, w3) \<Rightarrow>
                    (Some (WrapError (''failed to requeue email: '' @ err_Error requeueErr
                                      @ '' (original error: '' @ err_Error err @ '')'') requeueErr), w3)
                | (None, w3) \<Rightarrow> (None, w3))
          else
            (Some err, logger_log LevelError ''Email send failed after max retries''
                         [(''to'', AString (To task)), (''subject'', AString (Subject task)),
                          (''error'', AError err)] w))"

text \<open>\<open>var task EmailTask\<close>: the zero value \<open>json.Unmarshal\<close> fills.\<close>

definition processNextTask :: "'u env \<Rightarrow> RedisQueue \<Rightarrow> world \<Rightarrow> error option \<times> world" where
  "processNextTask e q w =
     (case BLPop e w of
        (Inl err, w1) \<Rightarrow>
          if err = RedisNil \<or> err = ContextCanceled then (None, w1)
          else (Some (Errorf_w ''queue retrieval error: '' err), w1)
      | (Inr result, w1) \<Rightarrow>
          if length result < 2 then (Some (ErrorString ''invalid queue result''), w1)
          else
            (case Unmarshal (json e) (result ! 1) of
               Inl err \<Rightarrow> (Some (Errorf_w ''task deserialization error: '' err), w1)
             | Inr task \<Rightarrow> sendEmailWithRetry e q task w1))"

text \<open>
  The worker loop runs against a schedule: what the world does during each iteration
  to come. The loop leaves \<open>RUNNING\<close> only through the branch of \<open>ctx.Done()\<close>; a
  schedule that ends finds it still running.
\<close>

datatype worker_state = RUNNING | STOPPED

fun worker_loop :: "RedisQueue \<Rightarrow> 'u env list \<Rightarrow> world \<Rightarrow> worker_state \<times> world" where
  "worker_loop q [] w = (RUNNING, w)"
| "worker_loop q (e # es) w =
     (if ctx_Done e then (STOPPED, logger_log LevelInfo ''Email queue worker stopped'' [] w)
      else
        (case processNextTask e q w of
           (Some err, w1) \<Rightarrow>
             worker_loop q es
               (time_Sleep queueCheckInterval
                  (logger_log LevelError ''Task processing error'' [(''error'', AError err)] w1))
         | (None, w1) \<Rightarrow> worker_loop q es w1))"

definition StartWorker :: "RedisQueue \<Rightarrow> 'u env list \<Rightarrow> world \<Rightarrow> worker_state \<times> world" where
  "StartWorker q es w = worker_loop q es (logger_log LevelInfo ''Starting email queue worker...'' [] w)"

section \<open>The encoding of a task: \<open>encoding/json\<close> on \<open>EmailTask\<close>\<close>

text \<open>
  The two library calls at the type the queue declares, following the package's
  documentation: struct fields are written under the names of their tags, in the order
  of the declaration, \<open>retries\<close> left out when it is 0 (\<open>omitempty\<close>); strings are
  coerced to valid UTF-8, every invalid byte replaced by U+FFFD; the keys of a map are
  written sorted; a number read into an \<open>interface{}\<close> is stored as a \<open>float64\<close>.
  The text layer (quoting, escapes, white space) is not modelled, and of the names of
  struct fields only the ASCII letters are matched without case.
\<close>

subsection \<open>Strings\<close>

definition cont_byte :: "char \<Rightarrow> bool" where
  "cont_byte c = (CHR 0x80 \<le> c \<and> c \<le> CHR 0xBF)"

definition second_of3 :: "char \<Rightarrow> char \<Rightarrow> bool" where
  "second_of3 a b =
     (if a = CHR 0xE0 then CHR 0xA0 \<le> b \<and> b \<le> CHR 0xBF
      else if a = CHR 0xED then CHR 0x80 \<le> b \<and> b \<le> CHR 0x9F
      else cont_byte b)"

definition second_of4 :: "char \<Rightarrow> char \<Rightarrow> bool" where
  "second_of4 a b =
     (if a = CHR 0xF0 then CHR 0x90 \<le> b \<and> b \<le> CHR 0xBF
      else if a = CHR 0xF4 then CHR 0x80 \<le> b \<and> b \<le> CHR 0x8F
      else cont_byte b)"

text \<open>The length of the rune encoded at the head of a string; 0 when the bytes encode none.\<close>

fun rune_len :: "string \<Rightarrow> nat" where
  "rune_len [] = 0"
| "rune_len (a # s) =
     (if a < CHR 0x80 then 1
      else if CHR 0xC2 \<le> a \<and> a \<le> CHR 0xDF then
        (case s of b # _ \<Rightarrow> if cont_byte b then 2 else 0 | _ \<Rightarrow> 0)
      else if CHR 0xE0 \<le> a \<and> a \<le> CHR 0xEF then
        (case s of b # c # _ \<Rightarrow> if second_of3 a b \<and> cont_byte c then 3 else 0 | _ \<Rightarrow> 0)
      else if CHR 0xF0 \<le> a \<and> a \<le> CHR 0xF4 then
        (case s of b # c # d # _ \<Rightarrow> if second_of4 a b \<and> cont_byte c \<and> cont_byte d then 4 else 0 | _ \<Rightarrow> 0)
      else 0)"

fun utf8_coerce :: "string \<Rightarrow> string" where
  "utf8_coerce [] = []"
| "utf8_coerce (a # s) =
     (case rune_len (a # s) of
        0 \<Rightarrow> [CHR 0xEF, CHR 0xBF, CHR 0xBD] @ utf8_coerce s
      | Suc k \<Rightarrow> a # take k s @ utf8_coerce (drop k s))"

definition utf8_valid :: "string \<Rightarrow> bool" where
  "utf8_valid s = (utf8_coerce s = s)"

definition lower_ascii :: "char \<Rightarrow> char" where
  "lower_ascii c = (if CHR ''A'' \<le> c \<and> c \<le> CHR ''Z'' then char_of (of_char c + (32::nat)) else c)"

subsection \<open>Numbers\<close>

fun bitlen :: "nat \<Rightarrow> nat" where
  "bitlen n = (if n = 0 then 0 else Suc (bitlen (n div 2)))"

text \<open>
  The \<open>float64\<close> nearest to an integer, ties to even (what \<open>strconv.ParseFloat\<close>
  returns for its decimal digits); none beyond the largest finite value.
\<close>

definition float64_of_int :: "int \<Rightarrow> float64 option" where
  "float64_of_int n =
     (if n = 0 then Some 0
      else
        (let a = nat \<bar>n\<bar>;
             l = bitlen a;
             q = (if l \<le> 53 then a * 2 ^ (53 - l) else a div 2 ^ (l - 53));
             r = (if l \<le> 53 then 0 else a mod 2 ^ (l - 53));
             half = (if l \<le> 53 then 1 else 2 ^ (l - 54));
             q1 = (if r > half \<or> (r = half \<and> odd q) then q + 1 else q);
             ex = (if q1 = 2 ^ 53 then l else l - 1);
             mant = (if q1 = 2 ^ 53 then 0 else q1 - 2 ^ 52)
         in if ex > 1023 then None
            else Some (word_of_nat ((if n < 0 then 2 ^ 63 else 0) + (ex + 1023) * 2 ^ 52 + mant))))"

definition float64_exponent :: "float64 \<Rightarrow> nat" where
  "float64_exponent f = unat (drop_bit 52 f) mod 2048"

definition float64_mantissa :: "float64 \<Rightarrow> nat" where
  "float64_mantissa f = unat f mod 2 ^ 52"

definition float64_negative :: "float64 \<Rightarrow> bool" where
  "float64_negative f = bit f 63"

definition float64_finite :: "float64 \<Rightarrow> bool" where
  "float64_finite f = (float64_exponent f \<noteq> 2047)"

text \<open>
  The integer a finite \<open>float64\<close> is written as, when its literal has neither a
  fraction nor an exponent: an integral value below \<open>10^21\<close> in magnitude.
\<close>

definition float64_to_int :: "float64 \<Rightarrow> int option" where
  "float64_to_int f =
     (let ex = float64_exponent f; m = float64_mantissa f;
          sgn = (if float64_negative f then - 1 else 1 :: int)
      in if ex = 2047 then None
         else if ex = 0 then (if m = 0 then Some 0 else None)
         else if ex \<ge> 1075 then
           (let v = (2 ^ 52 + m) * 2 ^ (ex - 1075) in if v < 10 ^ 21 then Some (sgn * int v) else None)
         else if (2 ^ 52 + m) mod 2 ^ (1075 - ex) = 0 then
           Some (sgn * int ((2 ^ 52 + m) div 2 ^ (1075 - ex)))
         else None)"

definition in_int64 :: "int \<Rightarrow> bool" where
  "in_int64 n = (- (2 ^ 63) \<le> n \<and> n < 2 ^ 63)"

subsection \<open>\<open>Marshal\<close>\<close>

definition unsupported_float :: "float64 \<Rightarrow> error" where
  "unsupported_float f =
     ErrorString (''json: unsupported value: ''
       @ (if float64_mantissa f \<noteq> 0 then ''NaN'' else if float64_negative f then ''-Inf'' else ''+Inf''))"

definition json_object :: "(string \<times> json) list \<Rightarrow> json" where
  "json_object entries =
     JObject (map (\<lambda>(k, j). (utf8_coerce k, j)) (sort_key fst (AList.clearjunk entries)))"

fun enc_value :: "go_value \<Rightarrow> error + json"
  and enc_values :: "go_value list \<Rightarrow> error + json list"
  and enc_entries :: "(string \<times> go_value) list \<Rightarrow> error + (string \<times> json) list" where
  "enc_value VNil = Inr JNull"
| "enc_value (VBool b) = Inr (JBool b)"
| "enc_value (VInt n) = Inr (JNumber (IntLit (sint n)))"
| "enc_value (VFloat64 f) =
     (if float64_finite f then Inr (JNumber (FloatLit f)) else Inl (unsupported_float f))"
| "enc_value (VString s) = Inr (JString (utf8_coerce s))"
| "enc_value (VURL s) = Inr (JString (utf8_coerce s))"
| "enc_value (VSlice vs) = (case enc_values vs of Inl err \<Rightarrow> Inl err | Inr js \<Rightarrow> Inr (JArray js))"
| "enc_value (VMap m) = (case enc_entries m of Inl err \<Rightarrow> Inl err | Inr es \<Rightarrow> Inr (json_object es))"
| "enc_values [] = Inr []"
| "enc_values (v # vs) =
     (case enc_value v of
        Inl err \<Rightarrow> Inl err
      | Inr j \<Rightarrow> (case enc_values vs of Inl err \<Rightarrow> Inl err | Inr js \<Rightarrow> Inr (j # js)))"
| "enc_entries [] = Inr []"
| "enc_entries ((k, v) # rest) =
     (case enc_value v of
        Inl err \<Rightarrow> Inl err
      | Inr j \<Rightarrow> (case enc_entries rest of Inl err \<Rightarrow> Inl err | Inr es \<Rightarrow> Inr ((k, j) # es)))"

definition json_Marshal :: "EmailTask \<Rightarrow> error + wire" where
  "json_Marshal task =
     (case (case Data task of None \<Rightarrow> Inr JNull | Some m \<Rightarrow> enc_value (VMap m)) of
        Inl err \<Rightarrow> Inl err
      | Inr d \<Rightarrow>
          Inr (Doc (JObject
            ([(''to'', JString (utf8_coerce (To task))),
              (''subject'', JString (utf8_coerce (Subject task))),
              (''templateName'', JString (utf8_coerce (TemplateName task))),
              (''data'', d)]
             @ (if Retries task = 0 then [] else [(''retries'', JNumber (IntLit (sint (Retries task))))])))))"

subsection \<open>\<open>Unmarshal\<close>\<close>

definition json_kind :: "json \<Rightarrow> string" where
  "json_kind j =
     (case j of
        JNull \<Rightarrow> ''null'' | JBool b \<Rightarrow> ''bool'' | JNumber n \<Rightarrow> ''number''
      | JString s \<Rightarrow> ''string'' | JArray js \<Rightarrow> ''array'' | JObject ms \<Rightarrow> ''object'')"

definition type_error :: "json \<Rightarrow> string \<Rightarrow> error" where
  "type_error j target = ErrorString (''json: cannot unmarshal '' @ json_kind j @ '' into Go '' @ target)"

fun dec_any :: "json \<Rightarrow> error + go_value"
  and dec_list :: "json list \<Rightarrow> error + go_value list"
  and dec_members :: "(string \<times> json) list \<Rightarrow> go_map \<Rightarrow> error + go_map" where
  "dec_any JNull = Inr VNil"
| "dec_any (JBool b) = Inr (VBool b)"
| "dec_any (JNumber (IntLit n)) =
     (case float64_of_int n of
        None \<Rightarrow> Inl (type_error (JNumber (IntLit n)) ''value of type float64'')
      | Some f \<Rightarrow> Inr (VFloat64 f))"
| "dec_any (JNumber (FloatLit f)) = Inr (VFloat64 f)"
| "dec_any (JString s) = Inr (VString (utf8_coerce s))"
| "dec_any (JArray js) = (case dec_list js of Inl err \<Rightarrow> Inl err | Inr vs \<Rightarrow> Inr (VSlice vs))"
| "dec_any (JObject ms) = (case dec_members ms [] of Inl err \<Rightarrow> Inl err | Inr m \<Rightarrow> Inr (VMap m))"
| "dec_list [] = Inr []"
| "dec_list (j # js) =
     (case dec_any j of
        Inl err \<Rightarrow> Inl err
      | Inr v \<Rightarrow> (case dec_list js of Inl err \<Rightarrow> Inl err | Inr vs \<Rightarrow> Inr (v # vs)))"
| "dec_members [] m = Inr m"
| "dec_members ((k, j) # rest) m =
     (case dec_any j of
        Inl err \<Rightarrow> Inl err
      | Inr v \<Rightarrow> dec_members rest (AList.update (utf8_coerce k) v m))"

definition struct_fields :: "string list" where
  "struct_fields = [''to'', ''subject'', ''templateName'', ''data'', ''retries'']"

definition match_field :: "string \<Rightarrow> string option" where
  "match_field key =
     (case find (\<lambda>f. f = key) struct_fields of
        Some f \<Rightarrow> Some f
      | None \<Rightarrow> find (\<lambda>f. map lower_ascii f = map lower_ascii key) struct_fields)"

definition dec_string :: "string \<Rightarrow> json \<Rightarrow> string \<Rightarrow> error + string" where
  "dec_string field j old =
     (case j of
        JString s \<Rightarrow> Inr (utf8_coerce s)
      | JNull \<Rightarrow> Inr old
      | _ \<Rightarrow> Inl (type_error j (''struct field EmailTask.'' @ field @ '' of type string'')))"

definition dec_int :: "json \<Rightarrow> 64 word \<Rightarrow> error + 64 word" where
  "dec_int j old =
     (case j of
        JNull \<Rightarrow> Inr old
      | JNumber (IntLit n) \<Rightarrow>
          if in_int64 n then Inr (word_of_int n)
          else Inl (type_error j ''struct field EmailTask.retries of type int'')
      | JNumber (FloatLit f) \<Rightarrow>
          (case float64_to_int f of
             Some n \<Rightarrow>
               if in_int64 n then Inr (word_of_int n)
               else Inl (type_error j ''struct field EmailTask.retries of type int'')
           | None \<Rightarrow> Inl (type_error j ''struct field EmailTask.retries of type int''))
      | _ \<Rightarrow> Inl (type_error j ''struct field EmailTask.retries of type int''))"

definition dec_data :: "json \<Rightarrow> go_map option \<Rightarrow> error + go_map option" where
  "dec_data j old =
     (case j of
        JNull \<Rightarrow> Inr None
      | JObject ms \<Rightarrow>
          (case dec_members ms (case old of None \<Rightarrow> [] | Some m \<Rightarrow> m) of
             Inl err \<Rightarrow> Inl err
           | Inr m \<Rightarrow> Inr (Some m))
      | _ \<Rightarrow> Inl (type_error j ''struct field EmailTask.data of type map[string]interface {}''))"

definition dec_field :: "string \<Rightarrow> json \<Rightarrow> EmailTask \<Rightarrow> error + EmailTask" where
  "dec_field key j task =
     (case match_field key of
        None \<Rightarrow> Inr task
      | Some f \<Rightarrow>
          if f = ''to'' then
            (case dec_string f j (To task) of Inl err \<Rightarrow> Inl err | Inr s \<Rightarrow> Inr (task\<lparr>To := s\<rparr>))
          else if f = ''subject'' then
            (case dec_string f j (Subject task) of Inl err \<Rightarrow> Inl err | Inr s \<Rightarrow> Inr (task\<lparr>Subject := s\<rparr>))
          else if f = ''templateName'' then
            (case dec_string f j (TemplateName task) of
               Inl err \<Rightarrow> Inl err | Inr s \<Rightarrow> Inr (task\<lparr>TemplateName := s\<rparr>))
          else if f = ''data'' then
            (case dec_data j (Data task) of Inl err \<Rightarrow> Inl err | Inr d \<Rightarrow> Inr (task\<lparr>Data := d\<rparr>))
          else
            (case dec_int j (Retries task) of Inl err \<Rightarrow> Inl err | Inr r \<Rightarrow> Inr (task\<lparr>Retries := r\<rparr>)))"

fun dec_struct :: "(string \<times> json) list \<Rightarrow> EmailTask \<Rightarrow> error + EmailTask" where
  "dec_struct [] task = Inr task"
| "dec_struct ((key, j) # rest) task =
     (case dec_field key j task of Inl err \<Rightarrow> Inl err | Inr task1 \<Rightarrow> dec_struct rest task1)"

definition zero_task :: EmailTask where
  "zero_task = \<lparr>To = [], Subject = [], TemplateName = [], Data = None, Retries = 0\<rparr>"

definition json_Unmarshal :: "wire \<Rightarrow> error + EmailTask" where
  "json_Unmarshal payload =
     (case payload of
        Bytes b \<Rightarrow> Inl (ErrorString ''invalid character in JSON input'')
      | Doc JNull \<Rightarrow> Inr zero_task
      | Doc (JObject ms) \<Rightarrow> dec_struct ms zero_task
      | Doc j \<Rightarrow> Inl (type_error j ''value of type queue.EmailTask''))"

definition encoding_json :: json_pkg where
  "encoding_json = \<lparr>Marshal = json_Marshal, Unmarshal = json_Unmarshal\<rparr>"

section \<open>Names used in the statements\<close>

text \<open>
  The world in which \<open>sendEmailWithRetry\<close> calls \<open>EnqueueEmail\<close> again: the warning
  is logged with the incremented count, then the worker pauses for \<open>retryDelay\<close>.
\<close>

definition requeue_world :: "EmailTask \<Rightarrow> error \<Rightarrow> world \<Rightarrow> world" where
  "requeue_world task err w =
     time_Sleep retryDelay
       (logger_log LevelWarn ''Email send failed, requeueing''
          [(''to'', AString (To task)), (''subject'', AString (Subject task)),
           (''retries'', AInt (Retries task + 1)), (''error'', AError err)] w)"

text \<open>A map value that is nil or the address of a cell of the store.\<close>

definition map_ref_ok :: "heap \<Rightarrow> map_ref \<Rightarrow> bool" where
  "map_ref_ok h r = (case r of NilMap \<Rightarrow> True | MapAt a \<Rightarrow> a < length h)"



text \<open>
  A transport value the validator of the sender refuses: the server, the sender address,
  the user name or the password empty or blank, or a port that is not positive.
\<close>

definition transport_value_missing :: "ApplicationConfig \<Rightarrow> bool" where
  "transport_value_missing cfg =
     (TrimSpace (EmailSMTPServer cfg) = [] \<or> EmailSMTPServerPort cfg \<le>s 0
      \<or> TrimSpace (EmailSenderAddress cfg) = [] \<or> TrimSpace (EmailSMTPUsername cfg) = []
      \<or> TrimSpace (EmailSMTPPassword cfg) = [])"

text \<open>
  A data value the round trip gives back as it was: a valid UTF-8 string, a boolean or
  a finite \<open>float64\<close>.
\<close>

definition kept_value :: "go_value \<Rightarrow> bool" where
  "kept_value v =
     (case v of
        VString s \<Rightarrow> utf8_valid s | VBool b \<Rightarrow> True | VFloat64 f \<Rightarrow> float64_finite f
      | _ \<Rightarrow> False)"

text \<open>
  The data values the round trip is stated for: valid UTF-8 strings, booleans,
  integers and finite \<open>float64\<close> values (\<open>json.Marshal\<close> refuses NaN and the
  infinities). \<open>json_image\<close> is what such a value is once it has been written and read
  back: an integer is read back as the \<open>float64\<close> nearest to it, every other value
  as itself. \<open>enc_scalar\<close> and
  \<open>dec_scalar\<close> name the results of the encoder and the decoder where they succeed.
\<close>

definition scalar_value :: "go_value \<Rightarrow> bool" where
  "scalar_value v =
     (case v of
        VString s \<Rightarrow> utf8_valid s | VBool b \<Rightarrow> True | VInt n \<Rightarrow> True
      | VFloat64 f \<Rightarrow> float64_finite f
      | _ \<Rightarrow> False)"

definition json_image :: "go_value \<Rightarrow> go_value" where
  "json_image v =
     (case v of
        VInt n \<Rightarrow> (case float64_of_int (sint n) of Some f \<Rightarrow> VFloat64 f | None \<Rightarrow> v)
      | _ \<Rightarrow> v)"

definition enc_scalar :: "go_value \<Rightarrow> json" where
  "enc_scalar v = (case enc_value v of Inr j \<Rightarrow> j | Inl err \<Rightarrow> JNull)"

definition dec_scalar :: "json \<Rightarrow> go_value" where
  "dec_scalar j = (case dec_any j of Inr v \<Rightarrow> v | Inl err \<Rightarrow> VNil)"

subsection \<open>Instances of the parameters, for the examples\<close>

text \<open>
  A URL parser that refuses ASCII control characters, as \<open>url.Parse\<close> does, and gives
  every other string back; an SMTP server that accepts every message, and one that is
  down; a configuration; two templates.
\<close>

definition example_url :: "string net_url" where
  "example_url =
     \<lparr>url_Parse = (\<lambda>s. if (\<exists>c \<in> set s. c < CHR 0x20 \<or> c = CHR 0x7F)
                          then Inl (ErrorString ''net/url: invalid control character in URL'')
                          else Inr s),
      url_String = (\<lambda>p. p)\<rparr>"

definition smtp_up :: smtp_send where
  "smtp_up addr auth sender_addr recipients msg = None"

definition smtp_down :: smtp_send where
  "smtp_down addr auth sender_addr recipients msg = Some (ErrorString ''dial tcp: connection refused'')"

definition example_config :: ApplicationConfig where
  "example_config =
     \<lparr>ServerPort = ''8080'', CacheHost = ''localhost'', CachePort = ''6379'', CachePassword = [],
      CacheDatabaseIndex = 0,
      EmailSMTPServer = ''smtp.example.com'', EmailSMTPServerPort = 587,
      EmailSMTPUsername = ''mailer'', EmailSMTPPassword = ''secret'',
      EmailSenderAddress = ''noreply@example.com'', EmailSenderDisplayName = ''Mailer''\<rparr>"

definition example_templates :: Manager where
  "example_templates =
     \<lparr>templates =
        [(''T'', \<lambda>d. Inr ''<p>Hello</p>''),
         (''reset'', \<lambda>d. case d ''resetUrl'' of
                            Some (VURL link) \<Rightarrow> Inr (''<a href='' @ link @ ''>reset</a>'')
                          | _ \<Rightarrow> Inr ''<a href=#ZgotmplZ>reset</a>'')]\<rparr>"

definition example_queue :: RedisQueue where
  "example_queue = \<lparr>sender = NewSender example_config example_templates\<rparr>"

definition example_env :: "string env" where
  "example_env =
     \<lparr>url = example_url, json = encoding_json, smtp_SendMail = smtp_up,
      RPush_err = None, BLPop_err = None, ctx_Done = False\<rparr>"

definition env_smtp_down :: "string env" where
  "env_smtp_down = example_env\<lparr>smtp_SendMail := smtp_down\<rparr>"

definition env_all_down :: "string env" where
  "env_all_down = example_env\<lparr>smtp_SendMail := smtp_down, RPush_err := Some (ErrorString ''EOF'')\<rparr>"

definition example_task :: EmailTask where
  "example_task =
     \<lparr>To = ''a@x.com'', Subject = ''S'', TemplateName = ''T'',
      Data = Some [(''name'', VString ''Bob'')], Retries = 0\<rparr>"

definition empty_world :: world where
  "empty_world = \<lparr>store = [], trace = []\<rparr>"

text \<open>The payload of \<open>example_task\<close>, and a store of two maps for the renderer.\<close>

definition example_payload :: wire where
  "example_payload =
     Doc (JObject [(''to'', JString ''a@x.com''), (''subject'', JString ''S''),
                   (''templateName'', JString ''T''),
                   (''data'', JObject [(''name'', JString ''Bob'')])])"

definition example_heap :: heap where
  "example_heap = [[(''resetUrl'', VString ''https://x.com/r?t=1''), (''name'', VString ''Bob'')],
                   [(''resetUrl'', VString [CHR ''h'', CHR 0x7F])]]"

text \<open>
  A task with a string, an integer, a boolean and the float 1.5 among its data; a task
  with an integer among its data, and its payload.
\<close>

definition mixed_task :: EmailTask where
  "mixed_task =
     example_task\<lparr>Data := Some [(''name'', VString ''Bob''), (''count'', VInt 5), (''vip'', VBool True),
                                 (''score'', VFloat64 0x3FF8000000000000)]\<rparr>"

definition count_task :: EmailTask where
  "count_task = example_task\<lparr>Data := Some [(''name'', VString ''Bob''), (''count'', VInt 5), (''vip'', VBool True)]\<rparr>"

definition count_payload :: wire where
  "count_payload =
     Doc (JObject [(''to'', JString ''a@x.com''), (''subject'', JString ''S''),
                   (''templateName'', JString ''T''),
                   (''data'', JObject [(''count'', JNumber (IntLit 5)), (''name'', JString ''Bob''),
                                       (''vip'', JBool True)])])"

section \<open>Facts shared by the proofs\<close>

declare digits.simps [simp del]
declare bitlen.simps [simp del]

lemmas example_defs =
  example_env_def env_smtp_down_def env_all_down_def example_queue_def example_task_def
  empty_world_def example_config_def example_templates_def example_url_def smtp_up_def
  smtp_down_def NewSender_def

lemmas sender_defs =
  SendEmail_def validateSMTPConfig_def TrimSpace_def ascii_space_def space2_def space3_def
  RenderWithSafeURLs_def make_map_def go_range_def deref_def map_assign_def urlFields_def
  Render_def word_sle_eq

lemmas queue_defs =
  EnqueueEmail_def validateEmailTask_def RPush_def BLPop_def logger_log_def time_Sleep_def
  requeue_world_def encoding_json_def json_Marshal_def json_object_def Errorf_w_def

lemmas json_dec_defs =
  json_Unmarshal_def dec_field_def match_field_def struct_fields_def dec_string_def
  dec_data_def dec_int_def in_int64_def zero_task_def

text \<open>Below the ceiling the increment does not wrap around.\<close>

lemma sint_succ_below:
  fixes r :: "64 word"
  assumes "r <s 3"
  shows "sint (r + 1) = sint r + 1" and "r + 1 \<le>s 3"
proof -
  from assms have lt: "sint r < 3" by (simp add: word_sless_alt)
  have ge: "- (2 ^ 63) \<le> sint r" using sint_ge [of r] by simp
  have "sint (r + 1) = signed_take_bit 63 (sint r + 1)"
    by (simp add: sint_word_ariths)
  also have "\<dots> = sint r + 1"
    using lt ge by (intro signed_take_bit_int_eq_self) auto
  finally show "sint (r + 1) = sint r + 1" .
  with lt show "r + 1 \<le>s 3" by (simp add: word_sle_eq)
qed

lemma store_logger_log [simp]: "store (logger_log lvl msg attrs w) = store w"
  by (simp add: logger_log_def)

lemma store_time_Sleep [simp]: "store (time_Sleep d w) = store w"
  by (simp add: time_Sleep_def)

text \<open>\<open>EnqueueEmail\<close> either fails and leaves the world alone, or appends one payload.\<close>

lemma EnqueueEmail_cases:
  "(\<exists>err. EnqueueEmail e task w = (Some err, w))
   \<or> (\<exists>payload. validateEmailTask task = None \<and> Marshal (json e) task = Inr payload \<and> RPush_err e = None
        \<and> EnqueueEmail e task w =
            (None, logger_log LevelInfo ''Email task enqueued''
                     [(''to'', AString (To task)), (''subject'', AString (Subject task))]
                     (w\<lparr>store := store w @ [payload]\<rparr>)))"
  by (auto simp: EnqueueEmail_def RPush_def split: option.splits sum.splits)

lemma EnqueueEmail_None:
  assumes "fst (EnqueueEmail e task w) = None"
  shows "\<exists>payload. Marshal (json e) task = Inr payload
           \<and> store (snd (EnqueueEmail e task w)) = store w @ [payload]"
  using assms EnqueueEmail_cases [of e task w] by auto

lemma EnqueueEmail_Some:
  assumes "fst (EnqueueEmail e task w) = Some err"
  shows "snd (EnqueueEmail e task w) = w"
  using assms EnqueueEmail_cases [of e task w] by auto

text \<open>The three ways through \<open>sendEmailWithRetry\<close>.\<close>

lemma sendEmailWithRetry_sent:
  assumes "SendEmail (url e) (smtp_SendMail e) (sender q)
             (To task) (Subject task) (TemplateName task) (Data task) = None"
  shows "sendEmailWithRetry e q task w =
           (None, logger_log LevelInfo ''Email sent successfully''
                   [(''to'', AString (To task)), (''subject'', AString (Subject task))] w)"
  using assms by (simp add: sendEmailWithRetry_def)

lemma sendEmailWithRetry_below:
  assumes "SendEmail (url e) (smtp_SendMail e) (sender q)
             (To task) (Subject task) (TemplateName task) (Data task) = Some err"
    and "Retries task <s 3"
  shows "fst (sendEmailWithRetry e q task w) =
           (case fst (EnqueueEmail e (task\<lparr>Retries := Retries task + 1\<rparr>) (requeue_world task err w)) of
              Some requeueErr \<Rightarrow>
                Some (WrapError (''failed to requeue email: '' @ err_Error requeueErr
                                  @ '' (original error: '' @ err_Error err @ '')'') requeueErr)
            | None \<Rightarrow> None)"
    and "snd (sendEmailWithRetry e q task w) =
           snd (EnqueueEmail e (task\<lparr>Retries := Retries task + 1\<rparr>) (requeue_world task err w))"
  using assms
  by (simp_all add: sendEmailWithRetry_def maxRetries_def Let_def requeue_world_def
        split: prod.splits option.splits)

lemma sendEmailWithRetry_ceiling:
  assumes "SendEmail (url e) (smtp_SendMail e) (sender q)
             (To task) (Subject task) (TemplateName task) (Data task) = Some err"
    and "\<not> Retries task <s 3"
  shows "sendEmailWithRetry e q task w =
           (Some err, logger_log LevelError ''Email send failed after max retries''
                         [(''to'', AString (To task)), (''subject'', AString (Subject task)),
                          (''error'', AError err)] w)"
  using assms by (simp add: sendEmailWithRetry_def maxRetries_def)

text \<open>With the SMTP server down, the example task is not delivered, whatever its count.\<close>

lemma example_send_down:
  "SendEmail (url env_smtp_down) (smtp_SendMail env_smtp_down) (sender example_queue)
     (To (example_task\<lparr>Retries := r\<rparr>)) (Subject (example_task\<lparr>Retries := r\<rparr>))
     (TemplateName (example_task\<lparr>Retries := r\<rparr>)) (Data (example_task\<lparr>Retries := r\<rparr>))
   = Some (ErrorString ''dial tcp: connection refused'')"
  "SendEmail (url env_all_down) (smtp_SendMail env_all_down) (sender example_queue)
     (To (example_task\<lparr>Retries := r\<rparr>)) (Subject (example_task\<lparr>Retries := r\<rparr>))
     (TemplateName (example_task\<lparr>Retries := r\<rparr>)) (Data (example_task\<lparr>Retries := r\<rparr>))
   = Some (ErrorString ''dial tcp: connection refused'')"
  by (simp_all add: example_defs sender_defs)

section \<open>Delivery with retry\<close>

text \<open>
  Claim C1. A task whose \<open>Retries\<close> is below 3 and whose delivery fails: the count
  goes up by exactly 1 (no wrap-around), and the call ends in the world, and with the
  store, that \<open>EnqueueEmail\<close> of the updated task leaves after the warning and the
  pause. When that requeue succeeds the call returns no error, and the store has grown
  by exactly the payload of the updated task.
\<close>

theorem retry_below_ceiling_requeues:
  assumes "SendEmail (url e) (smtp_SendMail e) (sender q)
             (To task) (Subject task) (TemplateName task) (Data task) = Some err"
    and "Retries task <s 3"
  shows "sint (Retries (task\<lparr>Retries := Retries task + 1\<rparr>)) = sint (Retries task) + 1
          \<and> snd (sendEmailWithRetry e q task w)
              = snd (EnqueueEmail e (task\<lparr>Retries := Retries task + 1\<rparr>) (requeue_world task err w))
          \<and> (fst (EnqueueEmail e (task\<lparr>Retries := Retries task + 1\<rparr>) (requeue_world task err w)) = None \<longrightarrow>
               fst (sendEmailWithRetry e q task w) = None
               \<and> (\<exists>payload. Marshal (json e) (task\<lparr>Retries := Retries task + 1\<rparr>) = Inr payload
                    \<and> store (snd (sendEmailWithRetry e q task w)) = store w @ [payload]))"
proof -
  let ?task1 = "task\<lparr>Retries := Retries task + 1\<rparr>"
  let ?w2 = "requeue_world task err w"
  note run = sendEmailWithRetry_below [OF assms, of w]
  have count: "sint (Retries ?task1) = sint (Retries task) + 1"
    using assms(2) by (simp add: sint_succ_below)
  have ok: "fst (sendEmailWithRetry e q task w) = None
             \<and> (\<exists>payload. Marshal (json e) ?task1 = Inr payload
                  \<and> store (snd (sendEmailWithRetry e q task w)) = store w @ [payload])"
    if none: "fst (EnqueueEmail e ?task1 ?w2) = None"
    using EnqueueEmail_None [OF none] none
    unfolding run by (simp add: requeue_world_def)
  from count run(2) ok show ?thesis by blast
qed

theorem retry_below_ceiling_requeues_witness:
  "Retries (example_task\<lparr>Retries := 2\<rparr>) <s 3
   \<and> fst (sendEmailWithRetry env_smtp_down example_queue (example_task\<lparr>Retries := 2\<rparr>) empty_world) = None
   \<and> store (snd (sendEmailWithRetry env_smtp_down example_queue (example_task\<lparr>Retries := 2\<rparr>) empty_world))
       = [Doc (JObject [(''to'', JString ''a@x.com''), (''subject'', JString ''S''),
                        (''templateName'', JString ''T''),
                        (''data'', JObject [(''name'', JString ''Bob'')]),
                        (''retries'', JNumber (IntLit 3))])]"
proof -
  let ?t = "example_task\<lparr>Retries := 2\<rparr>"
  have lt: "Retries ?t <s 3" by (simp add: word_sless_alt)
  have enq: "fst (EnqueueEmail env_smtp_down (?t\<lparr>Retries := Retries ?t + 1\<rparr>)
                   (requeue_world ?t (ErrorString ''dial tcp: connection refused'') empty_world)) = None"
    by (simp add: example_defs queue_defs)
  have enc: "Marshal (json env_smtp_down) (?t\<lparr>Retries := Retries ?t + 1\<rparr>)
      = Inr (Doc (JObject [(''to'', JString ''a@x.com''), (''subject'', JString ''S''),
                        (''templateName'', JString ''T''),
                        (''data'', JObject [(''name'', JString ''Bob'')]),
                        (''retries'', JNumber (IntLit 3))]))"
    by (simp add: example_defs queue_defs)
  from retry_below_ceiling_requeues [OF example_send_down(1) lt, of empty_world] enq
  have "fst (sendEmailWithRetry env_smtp_down example_queue ?t empty_world) = None
        \<and> (\<exists>payload. Marshal (json env_smtp_down) (?t\<lparr>Retries := Retries ?t + 1\<rparr>) = Inr payload
              \<and> store (snd (sendEmailWithRetry env_smtp_down example_queue ?t empty_world))
                  = store empty_world @ [payload])"
    by blast
  with enc lt show ?thesis by (auto simp: empty_world_def)
qed

text \<open>
  Claim C2. A task whose \<open>Retries\<close> equals 3 and whose delivery fails: the call
  returns the delivery error itself, the store is as it was (nothing is appended), and
  exactly one record is logged, at error level: the terminal failure with recipient,
  subject and error.
\<close>

theorem retry_at_ceiling_drops:
  assumes "SendEmail (url e) (smtp_SendMail e) (sender q)
             (To task) (Subject task) (TemplateName task) (Data task) = Some err"
    and "Retries task = 3"
  shows "sendEmailWithRetry e q task w =
           (Some err, w\<lparr>trace := trace w @ [Logged LevelError ''Email send failed after max retries''
                         [(''to'', AString (To task)), (''subject'', AString (Subject task)),
                          (''error'', AError err)]]\<rparr>)
         \<and> store (snd (sendEmailWithRetry e q task w)) = store w"
  using sendEmailWithRetry_ceiling [OF assms(1), of w] assms(2)
  by (simp add: logger_log_def word_sless_alt)

theorem retry_at_ceiling_drops_witness:
  "sendEmailWithRetry env_smtp_down example_queue (example_task\<lparr>Retries := 3\<rparr>) empty_world
     = (Some (ErrorString ''dial tcp: connection refused''),
        \<lparr>store = [],
         trace = [Logged LevelError ''Email send failed after max retries''
                    [(''to'', AString ''a@x.com''), (''subject'', AString ''S''),
                     (''error'', AError (ErrorString ''dial tcp: connection refused''))]]\<rparr>)"
  using retry_at_ceiling_drops [OF example_send_down(1), of 3 empty_world]
  by (simp add: example_task_def empty_world_def)

text \<open>
  Claim C6. Below the ceiling, when the delivery fails and the requeue fails too, the
  call returns one error: it wraps the requeue error, and its text names the requeue
  error and the original delivery error. The world is the one after the warning and
  the pause: the task is in no store.
\<close>

theorem requeue_failure_is_compound:
  assumes "SendEmail (url e) (smtp_SendMail e) (sender q)
             (To task) (Subject task) (TemplateName task) (Data task) = Some err"
    and "Retries task <s 3"
    and "fst (EnqueueEmail e (task\<lparr>Retries := Retries task + 1\<rparr>) (requeue_world task err w)) = Some requeueErr"
  shows "\<exists>compound. sendEmailWithRetry e q task w = (Some compound, requeue_world task err w)
           \<and> compound = WrapError (err_Error compound) requeueErr
           \<and> err_Error compound = ''failed to requeue email: '' @ err_Error requeueErr
                                   @ '' (original error: '' @ err_Error err @ '')''"
  using sendEmailWithRetry_below [OF assms(1,2), of w] EnqueueEmail_Some [OF assms(3)] assms(3)
  by (cases "sendEmailWithRetry e q task w") simp

theorem requeue_failure_is_compound_witness:
  "sendEmailWithRetry env_all_down example_queue example_task empty_world
     = (Some (WrapError ''failed to requeue email: failed to enqueue email task: EOF (original error: dial tcp: connection refused)''
                (WrapError ''failed to enqueue email task: EOF'' (ErrorString ''EOF''))),
        requeue_world example_task (ErrorString ''dial tcp: connection refused'') empty_world)"
proof -
  have lt: "Retries (example_task\<lparr>Retries := 0\<rparr>) <s 3" by (simp add: word_sless_alt)
  have enq: "fst (EnqueueEmail env_all_down (example_task\<lparr>Retries := 0\<rparr>\<lparr>Retries := Retries (example_task\<lparr>Retries := 0\<rparr>) + 1\<rparr>)
                   (requeue_world (example_task\<lparr>Retries := 0\<rparr>) (ErrorString ''dial tcp: connection refused'') empty_world))
             = Some (WrapError ''failed to enqueue email task: EOF'' (ErrorString ''EOF''))"
    by (simp add: example_defs queue_defs)
  have same: "example_task\<lparr>Retries := 0\<rparr> = example_task" by (simp add: example_task_def)
  from requeue_failure_is_compound [OF example_send_down(2) lt enq] show ?thesis
    unfolding same by auto
qed

text \<open>
  Claim C9. A task that enters with \<open>Retries\<close> at 3 or above (signed; any value the
  encoding can carry) leaves the store as it was, whether or not the delivery succeeds.
  For every task, either the store is unchanged or exactly one payload was appended,
  that of the task with its count incremented without wrap-around to at most 3.
\<close>

theorem requeued_count_at_most_ceiling:
  "(3 \<le>s Retries task \<longrightarrow> store (snd (sendEmailWithRetry e q task w)) = store w)
   \<and> (store (snd (sendEmailWithRetry e q task w)) = store w
      \<or> (\<exists>payload. Marshal (json e) (task\<lparr>Retries := Retries task + 1\<rparr>) = Inr payload
           \<and> store (snd (sendEmailWithRetry e q task w)) = store w @ [payload]
           \<and> Retries task + 1 \<le>s 3
           \<and> sint (Retries task + 1) = sint (Retries task) + 1))"
proof (cases "SendEmail (url e) (smtp_SendMail e) (sender q)
             (To task) (Subject task) (TemplateName task) (Data task)")
  case None
  then show ?thesis by (simp add: sendEmailWithRetry_sent)
next
  case (Some err)
  show ?thesis
  proof (cases "Retries task <s 3")
    case False
    with Some show ?thesis by (simp add: sendEmailWithRetry_ceiling)
  next
    case True
    let ?task1 = "task\<lparr>Retries := Retries task + 1\<rparr>"
    let ?w2 = "requeue_world task err w"
    note run = sendEmailWithRetry_below [OF Some True, of w]
    have not_ge: "\<not> 3 \<le>s Retries task" using True by (simp add: word_sless_alt word_sle_eq)
    note same = run(2)
    show ?thesis
    proof (cases "fst (EnqueueEmail e ?task1 ?w2)")
      case None
      from EnqueueEmail_None [OF None] True not_ge show ?thesis
        unfolding same by (simp add: requeue_world_def sint_succ_below)
    next
      case (Some re)
      from EnqueueEmail_Some [OF Some] not_ge show ?thesis
        unfolding same by (simp add: requeue_world_def)
    qed
  qed
qed

theorem requeued_count_at_most_ceiling_witness:
  "3 \<le>s Retries (example_task\<lparr>Retries := 7\<rparr>)
   \<and> store (snd (sendEmailWithRetry env_smtp_down example_queue (example_task\<lparr>Retries := 7\<rparr>) empty_world))
       = store empty_world"
  using requeued_count_at_most_ceiling [of "example_task\<lparr>Retries := 7\<rparr>" env_smtp_down example_queue empty_world]
  by (simp add: word_sle_eq)

section \<open>Enqueueing\<close>

text \<open>
  Claim C4. A task whose recipient, subject or template name is empty: \<open>EnqueueEmail\<close>
  returns the validation error, wrapped, and the world is the one it was called in:
  nothing is appended to the store.
\<close>

theorem enqueue_rejects_empty_field:
  assumes "To task = [] \<or> Subject task = [] \<or> TemplateName task = []"
  shows "\<exists>err. validateEmailTask task = Some err
           \<and> EnqueueEmail e task w = (Some (Errorf_w ''invalid email task: '' err), w)"
  using assms by (auto simp: EnqueueEmail_def validateEmailTask_def)

theorem enqueue_rejects_empty_field_witness:
  "EnqueueEmail example_env (example_task\<lparr>Subject := []\<rparr>) empty_world
     = (Some (WrapError ''invalid email task: email subject is required''
                (ErrorString ''email subject is required'')), empty_world)"
  using enqueue_rejects_empty_field [of "example_task\<lparr>Subject := []\<rparr>" example_env empty_world]
  by (simp add: example_task_def validateEmailTask_def Errorf_w_def)

section \<open>The worker loop\<close>

text \<open>The loop has stopped exactly when some iteration found the context done.\<close>

lemma worker_loop_state:
  "fst (worker_loop q es w) = STOPPED \<longleftrightarrow> (\<exists>e \<in> set es. ctx_Done e)"
proof (induction es arbitrary: w)
  case Nil
  show ?case by simp
next
  case (Cons e es)
  show ?case
  proof (cases "ctx_Done e")
    case True
    then show ?thesis by simp
  next
    case False
    obtain r w1 where step: "processNextTask e q w = (r, w1)"
      by (cases "processNextTask e q w")
    show ?thesis
      using False step Cons.IH by (cases r) simp_all
  qed
qed

lemma worker_loop_continues:
  assumes "\<not> ctx_Done e"
  shows "\<exists>w1. worker_loop q (e # es) w = worker_loop q es w1"
proof -
  obtain r w1 where step: "processNextTask e q w = (r, w1)"
    by (cases "processNextTask e q w")
  show ?thesis using assms step by (cases r) auto
qed

lemma processNextTask_malformed:
  assumes "BLPop_err e = None" and "store w = payload # rest"
    and "Unmarshal (json e) payload = Inl err"
  shows "processNextTask e q w =
           (Some (Errorf_w ''task deserialization error: '' err), w\<lparr>store := rest\<rparr>)"
  using assms by (simp add: processNextTask_def BLPop_def)

text \<open>
  Claim C5. The worker is \<open>STOPPED\<close> after a schedule exactly when one of its
  iterations found the context done: no outcome of \<open>processNextTask\<close> ends the loop.
  Every iteration that does not see the cancellation goes on with the rest of the
  schedule. When the payload at the head of the store does not deserialize, the
  iteration removes it, appends nothing, logs one record at error level, pauses for
  \<open>queueCheckInterval\<close>, and the loop goes on.
\<close>

theorem worker_survives_every_outcome:
  "(fst (StartWorker q es w) = STOPPED \<longleftrightarrow> (\<exists>e \<in> set es. ctx_Done e))
   \<and> (\<not> ctx_Done e \<longrightarrow> (\<exists>w1. worker_loop q (e # es) w = worker_loop q es w1))
   \<and> (\<not> ctx_Done e \<and> BLPop_err e = None \<and> store w = payload # rest
        \<and> Unmarshal (json e) payload = Inl err \<longrightarrow>
        worker_loop q (e # es) w =
          worker_loop q es
            (w\<lparr>store := rest,
               trace := trace w @ [Logged LevelError ''Task processing error''
                                     [(''error'', AError (Errorf_w ''task deserialization error: '' err))],
                                   Slept queueCheckInterval]\<rparr>))"
proof -
  have a: "fst (StartWorker q es w) = STOPPED \<longleftrightarrow> (\<exists>e \<in> set es. ctx_Done e)"
    by (simp add: StartWorker_def worker_loop_state)
  have b: "\<not> ctx_Done e \<longrightarrow> (\<exists>w1. worker_loop q (e # es) w = worker_loop q es w1)"
    using worker_loop_continues by blast
  have c: "worker_loop q (e # es) w =
          worker_loop q es
            (w\<lparr>store := rest,
               trace := trace w @ [Logged LevelError ''Task processing error''
                                     [(''error'', AError (Errorf_w ''task deserialization error: '' err))],
                                   Slept queueCheckInterval]\<rparr>)"
    if "\<not> ctx_Done e" "BLPop_err e = None" "store w = payload # rest"
       "Unmarshal (json e) payload = Inl err"
    using that processNextTask_malformed [OF that(2,3,4), of q]
    by (simp add: logger_log_def time_Sleep_def)
  from a b c show ?thesis by blast
qed

theorem worker_survives_every_outcome_witness:
  "StartWorker example_queue [example_env, example_env, example_env\<lparr>ctx_Done := True\<rparr>]
     \<lparr>store = [Bytes ''{not json'', example_payload], trace = []\<rparr>
   = (STOPPED,
      \<lparr>store = [],
       trace = [Logged LevelInfo ''Starting email queue worker...'' [],
                Logged LevelError ''Task processing error''
                  [(''error'', AError (WrapError ''task deserialization error: invalid character in JSON input''
                                         (ErrorString ''invalid character in JSON input'')))],
                Slept 1000000000,
                Logged LevelInfo ''Email sent successfully''
                  [(''to'', AString ''a@x.com''), (''subject'', AString ''S'')],
                Logged LevelInfo ''Email queue worker stopped'' []]\<rparr>)"
proof -
  let ?w = "logger_log LevelInfo ''Starting email queue worker...'' []
              \<lparr>store = [Bytes ''{not json'', example_payload], trace = []\<rparr>"
  have bad: "\<not> ctx_Done example_env \<and> BLPop_err example_env = None
             \<and> store ?w = Bytes ''{not json'' # [example_payload]
             \<and> Unmarshal (json example_env) (Bytes ''{not json'') = Inl (ErrorString ''invalid character in JSON input'')"
    by (simp add: example_env_def encoding_json_def json_Unmarshal_def)
  from worker_survives_every_outcome [of example_queue "[example_env, example_env\<lparr>ctx_Done := True\<rparr>]" ?w example_env
              "Bytes ''{not json''" "[example_payload]"
              "ErrorString ''invalid character in JSON input''"] bad
  have "worker_loop example_queue (example_env # [example_env, example_env\<lparr>ctx_Done := True\<rparr>]) ?w =
          worker_loop example_queue [example_env, example_env\<lparr>ctx_Done := True\<rparr>]
            (?w\<lparr>store := [example_payload],
               trace := trace ?w @ [Logged LevelError ''Task processing error''
                                     [(''error'', AError (Errorf_w ''task deserialization error: '' (ErrorString ''invalid character in JSON input'')))],
                                   Slept queueCheckInterval]\<rparr>)"
    by blast
  then show ?thesis
    by (simp add: StartWorker_def processNextTask_def BLPop_def sendEmailWithRetry_def
          example_payload_def json_dec_defs example_defs sender_defs queue_defs
          queueCheckInterval_def time_Second_def)
qed


section \<open>The sender\<close>

lemma TrimSpace_Nil [simp]: "TrimSpace [] = []"
  by (simp add: TrimSpace_def)

text \<open>
  Claim C7, as the code has it. \<open>NewSender\<close> stores the configuration and the
  templates as they are and reports nothing. When a transport value is missing, every
  \<open>SendEmail\<close> with a recipient, a subject and a template name returns the error of
  \<open>validateSMTPConfig\<close>, wrapped as an invalid SMTP configuration, whatever the
  data, the URL parser and the SMTP server: the error is reported by each send.
\<close>

theorem config_checked_on_every_send:
  "sender_config (NewSender cfg tmpl) = cfg \<and> sender_templates (NewSender cfg tmpl) = tmpl
   \<and> (to \<noteq> [] \<and> subject \<noteq> [] \<and> templateName \<noteq> [] \<and> transport_value_missing cfg \<longrightarrow>
        (\<exists>err. validateSMTPConfig (NewSender cfg tmpl) = Some err
           \<and> SendEmail u smtp (NewSender cfg tmpl) to subject templateName data
               = Some (Errorf_w ''invalid SMTP configuration: '' err)))"
  by (auto simp: NewSender_def SendEmail_def validateSMTPConfig_def transport_value_missing_def)

theorem config_checked_on_every_send_witness:
  "transport_value_missing (example_config\<lparr>EmailSMTPPassword := ''  ''\<rparr>)
   \<and> SendEmail example_url smtp_up (NewSender (example_config\<lparr>EmailSMTPPassword := ''  ''\<rparr>) example_templates)
       ''a@x.com'' ''S'' ''T'' None
     = Some (WrapError ''invalid SMTP configuration: SMTP password is not configured''
               (ErrorString ''SMTP password is not configured''))"
proof -
  have m: "transport_value_missing (example_config\<lparr>EmailSMTPPassword := ''  ''\<rparr>)"
    by (simp add: transport_value_missing_def example_config_def TrimSpace_def ascii_space_def)
  have v: "validateSMTPConfig (NewSender (example_config\<lparr>EmailSMTPPassword := ''  ''\<rparr>) example_templates)
            = Some (ErrorString ''SMTP password is not configured'')"
    by (simp add: validateSMTPConfig_def NewSender_def example_config_def TrimSpace_def
          ascii_space_def space2_def space3_def word_sle_eq)
  from config_checked_on_every_send [of "example_config\<lparr>EmailSMTPPassword := ''  ''\<rparr>" example_templates
             "''a@x.com''" "''S''" "''T''" example_url smtp_up None] m v
  show ?thesis by (simp add: Errorf_w_def)
qed

text \<open>
  Claim C7 as stated fails: with no SMTP server configured, \<open>NewSender\<close> returns a
  sender, and the configuration error comes from the call of \<open>SendEmail\<close>.
\<close>

theorem config_error_at_construction_counterexample:
  "NewSender (example_config\<lparr>EmailSMTPServer := []\<rparr>) example_templates
     = \<lparr>sender_config = example_config\<lparr>EmailSMTPServer := []\<rparr>, sender_templates = example_templates\<rparr>
   \<and> SendEmail example_url smtp_up (NewSender (example_config\<lparr>EmailSMTPServer := []\<rparr>) example_templates)
       ''a@x.com'' ''S'' ''T'' None
     = Some (WrapError ''invalid SMTP configuration: SMTP server is not configured''
               (ErrorString ''SMTP server is not configured''))"
  by (simp add: NewSender_def SendEmail_def validateSMTPConfig_def Errorf_w_def)


section \<open>The renderer\<close>

text \<open>An assignment to one cell leaves the length of the store and the other cells.\<close>

lemma length_map_assign [simp]: "length (map_assign a k v h) = length h"
  by (simp add: map_assign_def)

lemma nth_map_assign_other [simp]: "b \<noteq> a \<Longrightarrow> map_assign a k v h ! b = h ! b"
  by (simp add: map_assign_def)

lemma nth_map_assign_same [simp]:
  "a < length h \<Longrightarrow> map_of (map_assign a k v h ! a) = (map_of (h ! a))(k \<mapsto> v)"
  by (simp add: map_assign_def update_conv')

lemma copy_entries_frame:
  "length (copy_entries es sd h) = length h \<and> (\<forall>b. b \<noteq> sd \<longrightarrow> copy_entries es sd h ! b = h ! b)"
  by (induction es sd h rule: copy_entries.induct) simp_all



lemma safe_urls_frame:
  "safe_urls u fs data sd h = Inr h3 \<Longrightarrow>
     length h3 = length h \<and> (\<forall>b. b \<noteq> sd \<longrightarrow> h3 ! b = h ! b)"
proof (induction fs arbitrary: h)
  case Nil
  then show ?case by simp
next
  case (Cons field fs)
  then show ?case
    by (auto split: option.splits go_value.splits if_splits sum.splits)
qed





lemma frame_prefix:
  assumes "length h' = Suc (length h)" and "\<forall>b. b \<noteq> length h \<longrightarrow> h' ! b = (h @ [[]]) ! b"
  shows "take (length h) h' = h"
proof (rule nth_equalityI)
  show "length (take (length h) h') = length h" using assms(1) by simp
  fix i assume "i < length (take (length h) h')"
  then have i: "i < length h" by simp
  with assms(2) have "h' ! i = (h @ [[]]) ! i" by simp
  with i show "take (length h) h' ! i = h ! i" by (simp add: nth_append)
qed

lemma deref_prefix:
  assumes "map_ref_ok h data" and "take (length h) h' = h" and "length h \<le> length h'"
  shows "deref h' data = deref h data"
proof (cases data)
  case NilMap
  then show ?thesis by (simp add: deref_def)
next
  case (MapAt d)
  with assms(1) have d: "d < length h" by (simp add: map_ref_ok_def)
  have "h' ! d = take (length h) h' ! d" using d by simp
  with assms(2) have "h' ! d = h ! d" by simp
  with d assms(3) MapAt show ?thesis by (simp add: deref_def)
qed

lemma RenderWithSafeURLs_heap:
  "length (snd (RenderWithSafeURLs m u name data h)) = Suc (length h)
   \<and> take (length h) (snd (RenderWithSafeURLs m u name data h)) = h"
proof -
  let ?h2 = "copy_entries (go_range (deref (h @ [[]]) data)) (length h) (h @ [[]])"
  have h2: "length ?h2 = Suc (length h)" "\<forall>b. b \<noteq> length h \<longrightarrow> ?h2 ! b = (h @ [[]]) ! b"
    using copy_entries_frame [of "go_range (deref (h @ [[]]) data)" "length h" "h @ [[]]"] by simp_all
  show ?thesis
  proof (cases "safe_urls u urlFields data (length h) ?h2")
    case (Inl err)
    then have "snd (RenderWithSafeURLs m u name data h) = ?h2"
      by (simp add: RenderWithSafeURLs_def make_map_def)
    with h2 show ?thesis by (simp add: frame_prefix)
  next
    case (Inr h3)
    then have eq: "snd (RenderWithSafeURLs m u name data h) = h3"
      by (simp add: RenderWithSafeURLs_def make_map_def)
    from safe_urls_frame [OF Inr] h2
    have "length h3 = Suc (length h)" "\<forall>b. b \<noteq> length h \<longrightarrow> h3 ! b = (h @ [[]]) ! b"
      by simp_all
    then show ?thesis unfolding eq by (simp add: frame_prefix)
  qed
qed

text \<open>
  Claim C10. After a call of \<open>RenderWithSafeURLs\<close> every cell the store had is as it
  was: the call only added the cell of \<open>safeData\<close>. So the caller's map has the same
  keys and values, whether the call rendered a body or returned an error.
\<close>

theorem render_leaves_caller_map:
  "take (length h) (snd (RenderWithSafeURLs m u name data h)) = h
   \<and> (map_ref_ok h data \<longrightarrow> deref (snd (RenderWithSafeURLs m u name data h)) data = deref h data)"
  using RenderWithSafeURLs_heap [of m u name data h]
  by (auto intro: deref_prefix)

theorem render_leaves_caller_map_witness:
  "map_ref_ok example_heap (MapAt 0)
   \<and> deref (snd (RenderWithSafeURLs example_templates example_url ''reset'' (MapAt 0) example_heap)) (MapAt 0)
       = [(''resetUrl'', VString ''https://x.com/r?t=1''), (''name'', VString ''Bob'')]
   \<and> map_ref_ok example_heap (MapAt 1)
   \<and> deref (snd (RenderWithSafeURLs example_templates example_url ''reset'' (MapAt 1) example_heap)) (MapAt 1)
       = [(''resetUrl'', VString [CHR ''h'', CHR 0x7F])]"
  using render_leaves_caller_map [of example_heap example_templates example_url "''reset''" "MapAt 0"]
        render_leaves_caller_map [of example_heap example_templates example_url "''reset''" "MapAt 1"]
  by (simp add: map_ref_ok_def example_heap_def deref_def)







section \<open>The round trip of a task\<close>

text \<open>Every 64-bit integer has a nearest \<open>float64\<close>.\<close>

lemma bitlen_le: "a < 2 ^ k \<Longrightarrow> bitlen a \<le> k"
proof (induction k arbitrary: a)
  case 0
  then show ?case by (simp add: bitlen.simps)
next
  case (Suc k)
  show ?case
  proof (cases "a = 0")
    case True
    then show ?thesis by (simp add: bitlen.simps)
  next
    case False
    from Suc.prems have "a div 2 < 2 ^ k" by simp
    then have "bitlen (a div 2) \<le> k" by (rule Suc.IH)
    with False show ?thesis by (subst bitlen.simps) simp
  qed
qed

lemma float64_of_int_int64:
  assumes "in_int64 n"
  shows "\<exists>f. float64_of_int n = Some f"
proof -
  have "nat \<bar>n\<bar> < 2 ^ 64" using assms by (auto simp: in_int64_def)
  then have "bitlen (nat \<bar>n\<bar>) \<le> 64" by (rule bitlen_le)
  then have "\<not> 1023 < bitlen (nat \<bar>n\<bar>) - Suc 0" and "\<not> 1023 < bitlen (nat \<bar>n\<bar>)"
    by simp_all
  then show ?thesis
    unfolding float64_of_int_def Let_def
    by (cases "n = 0") (simp_all del: power_Suc)
qed

lemma in_int64_sint: "in_int64 (sint (r :: 64 word))"
  using sint_ge [of r] sint_lt [of r] by (simp add: in_int64_def)

lemma enc_scalar_value:
  assumes "scalar_value v"
  shows "enc_value v = Inr (enc_scalar v)" and "dec_any (enc_scalar v) = Inr (json_image v)"
proof -
  show "enc_value v = Inr (enc_scalar v)"
    using assms by (cases v) (simp_all add: scalar_value_def enc_scalar_def)
  show "dec_any (enc_scalar v) = Inr (json_image v)"
  proof (cases v)
    case (VInt n)
    from float64_of_int_int64 [OF in_int64_sint, of n] obtain f
      where "float64_of_int (sint n) = Some f" by blast
    with VInt show ?thesis by (simp add: enc_scalar_def json_image_def)
  qed (use assms in \<open>simp_all add: scalar_value_def enc_scalar_def json_image_def utf8_valid_def\<close>)
qed

lemma enc_entries_scalar:
  assumes "\<forall>(k, v) \<in> set m. scalar_value v"
  shows "enc_entries m = Inr (map (\<lambda>(k, v). (k, enc_scalar v)) m)"
  using assms
proof (induction m)
  case Nil
  show ?case by simp
next
  case (Cons kv m)
  obtain k v where kv: "kv = (k, v)" by (cases kv)
  with Cons show ?case by (simp add: enc_scalar_value)
qed

lemma dec_members_scalar:
  assumes "\<forall>(k, j) \<in> set ms. utf8_valid k \<and> dec_any j = Inr (dec_scalar j)"
  shows "dec_members ms acc = Inr (fold (\<lambda>(k, j). AList.update k (dec_scalar j)) ms acc)"
  using assms
proof (induction ms arbitrary: acc)
  case Nil
  show ?case by simp
next
  case (Cons kj ms)
  obtain k j where kj: "kj = (k, j)" by (cases kj)
  with Cons show ?case by (simp add: utf8_valid_def)
qed

lemma map_of_fold_update:
  assumes "distinct (map fst ms)"
  shows "map_of (fold (\<lambda>(k, j). AList.update k (g j)) ms acc) = map_of acc ++ map_of (map (\<lambda>(k, j). (k, g j)) ms)"
  using assms
proof (induction ms arbitrary: acc)
  case Nil
  show ?case by simp
next
  case (Cons kj ms)
  obtain k j where kj: "kj = (k, j)" by (cases kj)
  have "k \<notin> dom (map_of (map (\<lambda>(k, j). (k, g j)) ms))"
    using Cons.prems kj by (auto simp: dom_map_of_conv_image_fst image_iff)
  moreover have "map_of (fold (\<lambda>(k, j). AList.update k (g j)) ms (AList.update k (g j) acc))
         = map_of (AList.update k (g j) acc) ++ map_of (map (\<lambda>(k, j). (k, g j)) ms)"
    using Cons.prems by (intro Cons.IH) simp
  ultimately show ?case
    unfolding kj by (auto simp: fun_eq_iff map_add_def dom_def update_conv' split: option.splits)
qed

lemma distinct_map_sort_key: "distinct (map f (sort_key f xs)) = distinct (map f xs)"
  by (induction xs) (simp_all add: distinct_insort_key)


lemma clearjunk_subset: "set (AList.clearjunk al) \<subseteq> set al"
proof
  fix p assume p: "p \<in> set (AList.clearjunk al)"
  obtain k v where kv: "p = (k, v)" by (cases p)
  from p kv have "map_of (AList.clearjunk al) k = Some v"
    by (simp add: map_of_eq_Some_iff)
  then have "map_of al k = Some v" by (simp add: map_of_clearjunk)
  then show "p \<in> set al" unfolding kv by (rule map_of_SomeD)
qed

lemma data_round_trip:
  assumes "\<forall>(k, v) \<in> set m. utf8_valid k \<and> scalar_value v"
  shows "\<exists>m'. dec_data (json_object (map (\<lambda>(k, v). (k, enc_scalar v)) m)) None = Inr (Some m')
           \<and> (\<forall>k. map_of m' k = map_option json_image (map_of m k))"
proof -
  let ?es = "map (\<lambda>(k, v). (k, enc_scalar v)) m"
  let ?L = "sort_key fst (AList.clearjunk ?es)"
  have sub: "set ?L \<subseteq> set ?es" using clearjunk_subset [of ?es] by simp
  have elem: "utf8_valid k \<and> dec_any j = Inr (dec_scalar j)" if "(k, j) \<in> set ?L" for k j
  proof -
    from that sub obtain v where "(k, v) \<in> set m" "j = enc_scalar v" by auto
    with assms show ?thesis by (auto simp: enc_scalar_value dec_scalar_def)
  qed
  have keys: "map (\<lambda>(k, j). (utf8_coerce k, j)) ?L = ?L"
    by (rule map_idI) (use elem in \<open>auto simp: utf8_valid_def\<close>)
  have dist: "distinct (map fst ?L)"
    by (simp add: distinct_map_sort_key)
  have dec: "dec_members ?L [] = Inr (fold (\<lambda>(k, j). AList.update k (dec_scalar j)) ?L [])"
    by (rule dec_members_scalar) (use elem in auto)
  let ?m' = "fold (\<lambda>(k, j). AList.update k (dec_scalar j)) ?L []"
  have "map_of ?L = map_of (AList.clearjunk ?es)"
    using dist by (subst map_of_inject_set) simp_all
  then have lookupL: "map_of ?L = map_option enc_scalar \<circ> map_of m"
    by (simp add: map_of_clearjunk map_of_map)
  have "map_of ?m' = map_option dec_scalar \<circ> map_of ?L"
    using map_of_fold_update [OF dist, of dec_scalar "[]"] by (simp add: map_of_map)
  then have look: "map_of ?m' k = map_option (dec_scalar \<circ> enc_scalar) (map_of m k)" for k
    unfolding lookupL by (simp add: option.map_comp)
  have "map_of ?m' k = map_option json_image (map_of m k)" for k
  proof (cases "map_of m k")
    case None
    with look [of k] show ?thesis by simp
  next
    case (Some v)
    then have "(k, v) \<in> set m" by (rule map_of_SomeD)
    with assms have "scalar_value v" by auto
    then have "dec_scalar (enc_scalar v) = json_image v"
      by (simp add: dec_scalar_def enc_scalar_value)
    with look [of k] Some show ?thesis by simp
  qed
  moreover have "dec_data (json_object ?es) None = Inr (Some ?m')"
    by (simp add: dec_data_def json_object_def keys dec)
  ultimately show ?thesis by blast
qed

lemma json_Marshal_scalar:
  assumes "\<forall>m. Data task = Some m \<longrightarrow> (\<forall>(k, v) \<in> set m. utf8_valid k \<and> scalar_value v)"
    and "utf8_valid (To task)" "utf8_valid (Subject task)" "utf8_valid (TemplateName task)"
  shows "json_Marshal task =
     Inr (Doc (JObject
            ([(''to'', JString (To task)),
              (''subject'', JString (Subject task)),
              (''templateName'', JString (TemplateName task)),
              (''data'', case Data task of None \<Rightarrow> JNull
                         | Some m \<Rightarrow> json_object (map (\<lambda>(k, v). (k, enc_scalar v)) m))]
             @ (if Retries task = 0 then [] else [(''retries'', JNumber (IntLit (sint (Retries task))))]))))"
proof (cases "Data task")
  case None
  with assms show ?thesis by (simp add: json_Marshal_def utf8_valid_def)
next
  case (Some m)
  with assms have "\<forall>(k, v) \<in> set m. scalar_value v" by auto
  then have "enc_entries m = Inr (map (\<lambda>(k, v). (k, enc_scalar v)) m)" by (rule enc_entries_scalar)
  with Some assms(2-) show ?thesis by (simp add: json_Marshal_def utf8_valid_def)
qed

lemma dec_struct_members:
  assumes "dec_data d None = Inr d'"
    and "utf8_valid to" "utf8_valid subject" "utf8_valid templateName"
  shows "dec_struct ([(''to'', JString to), (''subject'', JString subject),
                      (''templateName'', JString templateName), (''data'', d)]
                     @ (if r = 0 then [] else [(''retries'', JNumber (IntLit (sint r)))])) zero_task
           = Inr \<lparr>To = to, Subject = subject, TemplateName = templateName, Data = d', Retries = r\<rparr>"
  using assms in_int64_sint [of r]
  by (simp add: dec_field_def match_field_def struct_fields_def dec_string_def dec_int_def
        zero_task_def utf8_valid_def)


lemma json_image_kept_value: "kept_value v \<Longrightarrow> json_image v = v"
  by (cases v) (simp_all add: kept_value_def json_image_def)

text \<open>
  Claim C3, as the code has it. A task with non-empty recipient, subject and template
  name, whose strings and data keys are valid UTF-8 and whose data values are strings,
  booleans, integers or finite floats, is enqueued on an empty store, popped and deserialized: the
  task read has the same recipient, subject, template name and \<open>Retries\<close>, nil data
  for nil data, and otherwise data with the same keys, under each key the
  \<open>json_image\<close> of the original value. Strings, booleans and finite floats are
  equal to the original; an integer is not (it is read as a \<open>float64\<close>). For a
  float the number literal of the model is the text \<open>strconv\<close> writes for it, which
  by the contract of that package reads back as the same value.
\<close>

theorem task_round_trip:
  assumes "json e = encoding_json" and "RPush_err e = None" and "BLPop_err e = None"
    and "To task \<noteq> []" and "Subject task \<noteq> []" and "TemplateName task \<noteq> []"
    and "utf8_valid (To task)" and "utf8_valid (Subject task)" and "utf8_valid (TemplateName task)"
    and "\<forall>m. Data task = Some m \<longrightarrow> (\<forall>(k, v) \<in> set m. utf8_valid k \<and> scalar_value v)"
    and "store w = []"
  shows "\<exists>payload w1 w2 task'.
           EnqueueEmail e task w = (None, w1)
         \<and> BLPop e w1 = (Inr [Bytes emailQueue, payload], w2) \<and> store w2 = []
         \<and> Unmarshal (json e) payload = Inr task'
         \<and> To task' = To task \<and> Subject task' = Subject task
         \<and> TemplateName task' = TemplateName task \<and> Retries task' = Retries task
         \<and> (Data task = None \<longrightarrow> Data task' = None)
         \<and> (\<forall>m. Data task = Some m \<longrightarrow>
               (\<exists>m'. Data task' = Some m'
                  \<and> (\<forall>k. map_of m' k = map_option json_image (map_of m k))
                  \<and> (\<forall>k v. map_of m k = Some v \<and> kept_value v \<longrightarrow> map_of m' k = Some v)))"
proof -
  let ?d = "case Data task of None \<Rightarrow> JNull
            | Some m \<Rightarrow> json_object (map (\<lambda>(k, v). (k, enc_scalar v)) m)"
  let ?members = "[(''to'', JString (To task)), (''subject'', JString (Subject task)),
                   (''templateName'', JString (TemplateName task)), (''data'', ?d)]
                  @ (if Retries task = 0 then [] else [(''retries'', JNumber (IntLit (sint (Retries task))))])"
  let ?payload = "Doc (JObject ?members)"
  have enc: "Marshal (json e) task = Inr ?payload"
    using json_Marshal_scalar [OF assms(10) assms(7-9)] assms(1)
    by (simp add: encoding_json_def)
  let ?w1 = "logger_log LevelInfo ''Email task enqueued''
               [(''to'', AString (To task)), (''subject'', AString (Subject task))]
               (w\<lparr>store := store w @ [?payload]\<rparr>)"
  have enq: "EnqueueEmail e task w = (None, ?w1)"
    using enc assms(2,4-6) by (simp add: EnqueueEmail_def validateEmailTask_def RPush_def)
  have pop: "BLPop e ?w1 = (Inr [Bytes emailQueue, ?payload], ?w1\<lparr>store := []\<rparr>)"
    using assms(3,11) by (simp add: BLPop_def)
  obtain d' where d': "dec_data ?d None = Inr d'"
    and none: "Data task = None \<longrightarrow> d' = None"
    and some: "\<forall>m. Data task = Some m \<longrightarrow>
                 (\<exists>m'. d' = Some m' \<and> (\<forall>k. map_of m' k = map_option json_image (map_of m k)))"
  proof (cases "Data task")
    case None
    then have "dec_data ?d None = Inr None" by (simp add: dec_data_def)
    with None that show ?thesis by simp
  next
    case (Some m)
    with assms(10) have "\<forall>(k, v) \<in> set m. utf8_valid k \<and> scalar_value v" by simp
    from data_round_trip [OF this] obtain m' where
      "dec_data (json_object (map (\<lambda>(k, v). (k, enc_scalar v)) m)) None = Inr (Some m')"
      "\<forall>k. map_of m' k = map_option json_image (map_of m k)"
      by blast
    with Some that [of "Some m'"] show ?thesis by simp
  qed
  let ?task' = "\<lparr>To = To task, Subject = Subject task, TemplateName = TemplateName task,
                 Data = d', Retries = Retries task\<rparr>"
  have dec: "Unmarshal (json e) ?payload = Inr ?task'"
    using dec_struct_members [OF d' assms(7-9), of "Retries task"] assms(1)
    by (simp add: encoding_json_def json_Unmarshal_def)
  have kept: "\<forall>m. Data task = Some m \<longrightarrow>
               (\<exists>m'. Data ?task' = Some m'
                  \<and> (\<forall>k. map_of m' k = map_option json_image (map_of m k))
                  \<and> (\<forall>k v. map_of m k = Some v \<and> kept_value v \<longrightarrow> map_of m' k = Some v))"
    using some by (auto simp: json_image_kept_value)
  show ?thesis
    apply (rule exI [of _ ?payload])
    apply (rule exI [of _ ?w1])
    apply (rule exI [of _ "?w1\<lparr>store := []\<rparr>"])
    apply (rule exI [of _ ?task'])
    using enq pop dec none kept apply simp
    done
qed


theorem task_round_trip_witness:
  "\<exists>payload w1 w2 task' m'.
       EnqueueEmail example_env mixed_task empty_world = (None, w1)
     \<and> BLPop example_env w1 = (Inr [Bytes emailQueue, payload], w2)
     \<and> Unmarshal (json example_env) payload = Inr task'
     \<and> To task' = ''a@x.com'' \<and> Subject task' = ''S'' \<and> TemplateName task' = ''T'' \<and> Retries task' = 0
     \<and> Data task' = Some m'
     \<and> map_of m' ''name'' = Some (VString ''Bob'') \<and> map_of m' ''vip'' = Some (VBool True)
     \<and> map_of m' ''score'' = Some (VFloat64 0x3FF8000000000000)
     \<and> map_of m' ''count'' = Some (VFloat64 0x4014000000000000)"
proof -
  have valid: "utf8_valid ''a@x.com''" "utf8_valid ''S''" "utf8_valid ''T''" "utf8_valid ''name''"
    "utf8_valid ''count''" "utf8_valid ''vip''" "utf8_valid ''score''" "utf8_valid ''Bob''"
    by (simp_all add: utf8_valid_def)
  have finite: "float64_finite 0x3FF8000000000000"
    by (simp add: float64_finite_def float64_exponent_def drop_bit_eq_div)
  have img: "json_image (VInt 5) = VFloat64 0x4014000000000000"
    by (simp add: json_image_def float64_of_int_def Let_def bitlen.simps)
  have "\<exists>payload w1 w2 task'.
           EnqueueEmail example_env mixed_task empty_world = (None, w1)
         \<and> BLPop example_env w1 = (Inr [Bytes emailQueue, payload], w2) \<and> store w2 = []
         \<and> Unmarshal (json example_env) payload = Inr task'
         \<and> To task' = To mixed_task \<and> Subject task' = Subject mixed_task
         \<and> TemplateName task' = TemplateName mixed_task \<and> Retries task' = Retries mixed_task
         \<and> (Data mixed_task = None \<longrightarrow> Data task' = None)
         \<and> (\<forall>m. Data mixed_task = Some m \<longrightarrow>
               (\<exists>m'. Data task' = Some m'
                  \<and> (\<forall>k. map_of m' k = map_option json_image (map_of m k))
                  \<and> (\<forall>k v. map_of m k = Some v \<and> kept_value v \<longrightarrow> map_of m' k = Some v)))"
    by (rule task_round_trip)
       (simp_all add: mixed_task_def example_task_def example_env_def empty_world_def valid
          finite scalar_value_def)
  then obtain payload w1 w2 task' m' where
      "EnqueueEmail example_env mixed_task empty_world = (None, w1)"
      "BLPop example_env w1 = (Inr [Bytes emailQueue, payload], w2)"
      "Unmarshal (json example_env) payload = Inr task'"
      "To task' = To mixed_task" "Subject task' = Subject mixed_task"
      "TemplateName task' = TemplateName mixed_task" "Retries task' = Retries mixed_task"
      "Data task' = Some m'"
      "\<forall>k. map_of m' k = map_option json_image
                 (map_of [(''name'', VString ''Bob''), (''count'', VInt 5), (''vip'', VBool True),
                          (''score'', VFloat64 0x3FF8000000000000)] k)"
    by (auto simp: mixed_task_def example_task_def)
  moreover have "json_image (VString ''Bob'') = VString ''Bob''" "json_image (VBool True) = VBool True"
    "json_image (VFloat64 0x3FF8000000000000) = VFloat64 0x3FF8000000000000"
    by (simp_all add: json_image_def)
  ultimately have
     "EnqueueEmail example_env mixed_task empty_world = (None, w1)
     \<and> BLPop example_env w1 = (Inr [Bytes emailQueue, payload], w2)
     \<and> Unmarshal (json example_env) payload = Inr task'
     \<and> To task' = ''a@x.com'' \<and> Subject task' = ''S'' \<and> TemplateName task' = ''T'' \<and> Retries task' = 0
     \<and> Data task' = Some m'
     \<and> map_of m' ''name'' = Some (VString ''Bob'') \<and> map_of m' ''vip'' = Some (VBool True)
     \<and> map_of m' ''score'' = Some (VFloat64 0x3FF8000000000000)
     \<and> map_of m' ''count'' = Some (VFloat64 0x4014000000000000)"
    by (simp add: mixed_task_def example_task_def img)
  then show ?thesis by blast
qed

lemma count_task_enqueued:
  "EnqueueEmail example_env count_task empty_world
     = (None, \<lparr>store = [count_payload],
               trace = [Logged LevelInfo ''Email task enqueued''
                          [(''to'', AString ''a@x.com''), (''subject'', AString ''S'')]]\<rparr>)"
  by (simp add: count_task_def count_payload_def example_defs queue_defs)

lemma count_payload_decoded:
  "json_Unmarshal count_payload
     = Inr (example_task\<lparr>Data := Some [(''count'', VFloat64 0x4014000000000000), (''name'', VString ''Bob''),
                                       (''vip'', VBool True)]\<rparr>)"
  by (simp add: count_payload_def json_dec_defs example_task_def float64_of_int_def Let_def bitlen.simps)

text \<open>
  Claim C3 as stated fails on an integer data value: \<open>count\<close> is written as \<open>5\<close>
  and read back as the \<open>float64\<close> 5.0, not as the integer. It fails also on a string
  that is not valid UTF-8: the byte \<open>0xFF\<close> of the recipient comes back as U+FFFD.
  And a float that is not finite is not enqueued at all: \<open>json.Marshal\<close> refuses NaN.
\<close>

theorem integer_data_round_trip_counterexample:
  "fst (EnqueueEmail example_env count_task empty_world) = None
   \<and> store (snd (EnqueueEmail example_env count_task empty_world)) = [count_payload]
   \<and> Unmarshal (json example_env) count_payload
       = Inr (example_task\<lparr>Data := Some [(''count'', VFloat64 0x4014000000000000),
                                         (''name'', VString ''Bob''), (''vip'', VBool True)]\<rparr>)
   \<and> Data count_task = Some [(''name'', VString ''Bob''), (''count'', VInt 5), (''vip'', VBool True)]
   \<and> VFloat64 0x4014000000000000 \<noteq> VInt 5
   \<and> Marshal (json example_env) (example_task\<lparr>To := [CHR 0xFF, CHR ''@'', CHR ''x'']\<rparr>)
       = Inr (Doc (JObject [(''to'', JString [CHR 0xEF, CHR 0xBF, CHR 0xBD, CHR ''@'', CHR ''x'']),
                            (''subject'', JString ''S''), (''templateName'', JString ''T''),
                            (''data'', JObject [(''name'', JString ''Bob'')])]))
   \<and> Unmarshal (json example_env)
         (Doc (JObject [(''to'', JString [CHR 0xEF, CHR 0xBF, CHR 0xBD, CHR ''@'', CHR ''x'']),
                        (''subject'', JString ''S''), (''templateName'', JString ''T''),
                        (''data'', JObject [(''name'', JString ''Bob'')])]))
       = Inr (example_task\<lparr>To := [CHR 0xEF, CHR 0xBF, CHR 0xBD, CHR ''@'', CHR ''x'']\<rparr>)
   \<and> EnqueueEmail example_env (example_task\<lparr>Data := Some [(''x'', VFloat64 0x7FF8000000000000)]\<rparr>) empty_world
       = (Some (WrapError ''failed to serialize email task: json: unsupported value: NaN''
                  (ErrorString ''json: unsupported value: NaN'')), empty_world)"
proof -
  let ?bad = "[CHR 0xFF, CHR ''@'', CHR ''x'']"
  let ?coerced = "[CHR 0xEF, CHR 0xBF, CHR 0xBD, CHR ''@'', CHR ''x'']"
  let ?doc = "Doc (JObject [(''to'', JString ?coerced),
                            (''subject'', JString ''S''), (''templateName'', JString ''T''),
                            (''data'', JObject [(''name'', JString ''Bob'')])])"
  have a: "fst (EnqueueEmail example_env count_task empty_world) = None"
    and b: "store (snd (EnqueueEmail example_env count_task empty_world)) = [count_payload]"
    by (simp_all add: count_task_enqueued)
  have c: "Unmarshal (json example_env) count_payload
       = Inr (example_task\<lparr>Data := Some [(''count'', VFloat64 0x4014000000000000),
                                         (''name'', VString ''Bob''), (''vip'', VBool True)]\<rparr>)"
    by (simp add: example_env_def encoding_json_def count_payload_decoded)
  have d: "Data count_task = Some [(''name'', VString ''Bob''), (''count'', VInt 5), (''vip'', VBool True)]"
    by (simp add: count_task_def)
  have e: "VFloat64 0x4014000000000000 \<noteq> VInt 5" by simp
  have f: "Marshal (json example_env) (example_task\<lparr>To := ?bad\<rparr>) = Inr ?doc"
    by (simp add: example_env_def encoding_json_def example_task_def json_Marshal_def json_object_def)
  have g: "Unmarshal (json example_env) ?doc = Inr (example_task\<lparr>To := ?coerced\<rparr>)"
    by (simp add: example_env_def encoding_json_def example_task_def json_dec_defs
          second_of3_def cont_byte_def)
  have nan: "\<not> float64_finite 0x7FF8000000000000" "float64_mantissa 0x7FF8000000000000 \<noteq> 0"
    by (simp_all add: float64_finite_def float64_exponent_def float64_mantissa_def drop_bit_eq_div)
  have h: "EnqueueEmail example_env (example_task\<lparr>Data := Some [(''x'', VFloat64 0x7FF8000000000000)]\<rparr>) empty_world
       = (Some (WrapError ''failed to serialize email task: json: unsupported value: NaN''
                  (ErrorString ''json: unsupported value: NaN'')), empty_world)"
    by (simp add: EnqueueEmail_def validateEmailTask_def example_env_def encoding_json_def
          example_task_def json_Marshal_def nan unsupported_float_def Errorf_w_def)
  from a b c d e f g h show ?thesis by blast
qed


end
